theory Spec2Isabelle
  imports Complex_Main
begin

section \<open>JavaScript values\<close>

text \<open>
  The server (\<^verbatim>\<open>part_000\<close>: the store, the archive and the HTTP handlers) and the
  extraction client (\<^verbatim>\<open>src/services/gemini.ts\<close>) handle values that come out of
  \<^verbatim>\<open>JSON.parse\<close>: request bodies, the store file, the provider's answer. Such a
  value is a \<open>json\<close>; a JavaScript expression that may also be \<^verbatim>\<open>undefined\<close> (a
  missing property, a destructured key that is absent) is a \<open>json option\<close>, \<open>None\<close>
  being \<^verbatim>\<open>undefined\<close>. A finite number is an IEEE double in the program and a
  real here, and the two zeros, which \<^verbatim>\<open>===\<close> does not tell apart, are one;
  \<^verbatim>\<open>JSON.parse\<close> reads a literal beyond the range of the doubles, such as
  \<^verbatim>\<open>1e400\<close>, as \<^verbatim>\<open>Infinity\<close> and its negation as \<^verbatim>\<open>-Infinity\<close>, which are
  \<open>JPosInf\<close> and \<open>JNegInf\<close>. Strings are sequences of code units, here \<open>char\<close>s
  (code units below 256). An object is the list of its own properties in insertion
  order; a parsed object has pairwise distinct keys.
\<close>

datatype json =
    JNull
  | JBool bool
  | JNum real
  | JPosInf
  | JNegInf
  | JStr string
  | JArr "json list"
  | JObj "(string \<times> json) list"

type_synonym jsval = "json option"

text \<open>The errors the code can raise, as values.\<close>

datatype js_error =
    SyntaxError
  | TypeError
  | ENOENT
  | EISDIR
  | ENAMETOOLONG
  | Error string

text \<open>Truthiness of a value: what \<^verbatim>\<open>!v\<close> and \<^verbatim>\<open>a || b\<close> test.\<close>

fun truthy :: "json \<Rightarrow> bool" where
  "truthy JNull = False"
| "truthy (JBool b) = b"
| "truthy (JNum n) = (n \<noteq> 0)"
| "truthy JPosInf = True"
| "truthy JNegInf = True"
| "truthy (JStr s) = (s \<noteq> [])"
| "truthy (JArr xs) = True"
| "truthy (JObj kvs) = True"

text \<open>
  Property read \<^verbatim>\<open>v.k\<close> on a value that is neither \<^verbatim>\<open>null\<close> nor
  \<^verbatim>\<open>undefined\<close>. The keys the program reads (\<^verbatim>\<open>metadata\<close>,
  \<^verbatim>\<open>doctor_name\<close>, \<^verbatim>\<open>result\<close>, \<^verbatim>\<open>data\<close>) are not properties of the
  String, Number, Boolean or Array prototypes, so on a primitive or an array the read
  gives \<^verbatim>\<open>undefined\<close>.
\<close>

fun get_prop :: "json \<Rightarrow> string \<Rightarrow> jsval" where
  "get_prop (JObj kvs) k = map_of kvs k"
| "get_prop v k = None"

text \<open>Optional chaining \<^verbatim>\<open>v?.k\<close>: \<^verbatim>\<open>undefined\<close> when \<open>v\<close> is nullish.\<close>

fun opt_chain :: "jsval \<Rightarrow> string \<Rightarrow> jsval" where
  "opt_chain None k = None"
| "opt_chain (Some JNull) k = None"
| "opt_chain (Some v) k = get_prop v k"

text \<open>
  Destructuring \<^verbatim>\<open>const { k } = v\<close>: a TypeError when \<open>v\<close> is nullish, the
  property otherwise.
\<close>

fun destructure :: "jsval \<Rightarrow> string \<Rightarrow> js_error + jsval" where
  "destructure None k = Inl TypeError"
| "destructure (Some JNull) k = Inl TypeError"
| "destructure (Some v) k = Inr (get_prop v k)"

section \<open>Serialized text\<close>

text \<open>
  \<^verbatim>\<open>JSON.stringify\<close> and \<^verbatim>\<open>JSON.parse\<close> are built-ins of the language, not code
  of the repository. A text (the contents of a file, the provider's answer) is modelled
  up to what \<^verbatim>\<open>JSON.parse\<close> makes of it: \<open>JsonText v\<close> is a text that parses to
  \<open>v\<close>, \<open>PlainText s\<close> is the text \<open>s\<close> that does not parse; the empty string is
  \<open>PlainText []\<close>.
\<close>

datatype jstext = JsonText json | PlainText string

text \<open>
  JSON has no literal for a number that is not finite: \<^verbatim>\<open>JSON.stringify\<close> writes
  \<^verbatim>\<open>null\<close> for \<^verbatim>\<open>Infinity\<close> and \<^verbatim>\<open>-Infinity\<close>, wherever they stand in the
  value. \<open>jsonify v\<close> is the value that the text written for \<open>v\<close> parses to.
\<close>

fun jsonify :: "json \<Rightarrow> json" where
  "jsonify JPosInf = JNull"
| "jsonify JNegInf = JNull"
| "jsonify (JArr xs) = JArr (map jsonify xs)"
| "jsonify (JObj kvs) = JObj (map (\<lambda>(k, v). (k, jsonify v)) kvs)"
| "jsonify v = v"

definition JSON_stringify :: "json \<Rightarrow> jstext" where
  "JSON_stringify v = JsonText (jsonify v)"

text \<open>A value with no number in it that is not finite.\<close>

fun json_finite :: "json \<Rightarrow> bool" where
  "json_finite JPosInf = False"
| "json_finite JNegInf = False"
| "json_finite (JArr xs) = list_all json_finite xs"
| "json_finite (JObj kvs) = list_all (\<lambda>(k, v). json_finite v) kvs"
| "json_finite v = True"

fun JSON_parse :: "jstext \<Rightarrow> js_error + json" where
  "JSON_parse (JsonText v) = Inr v"
| "JSON_parse (PlainText s) = Inl SyntaxError"

section \<open>Paths (Node's POSIX \<^verbatim>\<open>path\<close> module)\<close>

text \<open>\<^verbatim>\<open>s.split(c)\<close> for a one-character separator.\<close>

fun split_on :: "char \<Rightarrow> string \<Rightarrow> string list" where
  "split_on c [] = [[]]"
| "split_on c (x # xs) =
     (if x = c then [] # split_on c xs
      else (case split_on c xs of
              s # ss \<Rightarrow> (x # s) # ss
            | [] \<Rightarrow> [[x]]))"

fun join_with :: "string \<Rightarrow> string list \<Rightarrow> string" where
  "join_with sep [] = []"
| "join_with sep [s] = s"
| "join_with sep (s # t # ss) = s @ sep @ join_with sep (t # ss)"

text \<open>
  \<^verbatim>\<open>normalizeString(path, allowAboveRoot)\<close> walks the segments between slashes and
  keeps the result so far: an empty segment and \<^verbatim>\<open>.\<close> are skipped; \<^verbatim>\<open>..\<close>
  removes the last kept segment unless there is none or it is \<^verbatim>\<open>..\<close> itself, in
  which case \<^verbatim>\<open>..\<close> is kept when \<open>allowAboveRoot\<close> holds; any other segment is
  kept. The kept segments are held in reverse (last kept first).
\<close>

fun normalize_segments :: "bool \<Rightarrow> string list \<Rightarrow> string list \<Rightarrow> string list" where
  "normalize_segments up kept [] = rev kept"
| "normalize_segments up kept (s # ss) =
     (if s = [] \<or> s = ''.'' then normalize_segments up kept ss
      else if s = ''..'' then
        (case kept of
           [] \<Rightarrow> normalize_segments up (if up then [''..''] else []) ss
         | t # ts \<Rightarrow>
             if t = ''..'' then normalize_segments up (if up then ''..'' # kept else kept) ss
             else normalize_segments up ts ss)
      else normalize_segments up (s # kept) ss)"

definition normalizeString :: "string \<Rightarrow> bool \<Rightarrow> string" where
  "normalizeString p allowAboveRoot =
     join_with ''/'' (normalize_segments allowAboveRoot [] (split_on CHR ''/'' p))"

text \<open>A kept segment is not empty and has no slash in it.\<close>

definition seg_ok :: "string \<Rightarrow> bool" where
  "seg_ok t = (t \<noteq> [] \<and> CHR ''/'' \<notin> set t)"

definition is_absolute :: "string \<Rightarrow> bool" where
  "is_absolute p = (case p of [] \<Rightarrow> False | c # cs \<Rightarrow> c = CHR ''/'')"

definition normalize :: "string \<Rightarrow> string" where
  "normalize p =
     (if p = [] then ''.''
      else
        let trailing = (last p = CHR ''/'');
            q = normalizeString p (\<not> is_absolute p)
        in if q = [] then (if is_absolute p then ''/'' else if trailing then ''./'' else ''.'')
           else (if is_absolute p then ''/'' else []) @ q @ (if trailing then ''/'' else []))"

text \<open>\<^verbatim>\<open>path.join(...args)\<close>: the non-empty arguments joined by a slash, normalized.\<close>

definition path_join :: "string list \<Rightarrow> string" where
  "path_join args =
     (let parts = filter (\<lambda>a. a \<noteq> []) args
      in if parts = [] then ''.'' else normalize (join_with ''/'' parts))"

text \<open>
  \<^verbatim>\<open>path.resolve(...args)\<close> goes through the arguments from the right, then the
  working directory, prepending each non-empty one until one is absolute. The list
  given to \<open>resolve_from\<close> is in that order.
\<close>

fun resolve_from :: "string list \<Rightarrow> string \<Rightarrow> bool \<times> string" where
  "resolve_from [] acc = (False, acc)"
| "resolve_from (a # rest) acc =
     (if a = [] then resolve_from rest acc
      else if is_absolute a then (True, a @ ''/'' @ acc)
      else resolve_from rest (a @ ''/'' @ acc))"

definition path_resolve :: "string \<Rightarrow> string list \<Rightarrow> string" where
  "path_resolve cwd args =
     (case resolve_from (rev args @ [cwd]) [] of
        (resolvedAbsolute, p) \<Rightarrow>
          let q = normalizeString p (\<not> resolvedAbsolute)
          in if resolvedAbsolute then ''/'' @ q
             else if q = [] then ''.'' else q)"

text \<open>
  \<^verbatim>\<open>path.basename(p)\<close>: trailing slashes are dropped, then what follows the last
  slash is returned.
\<close>

definition basename :: "string \<Rightarrow> string" where
  "basename p =
     rev (takeWhile (\<lambda>c. c \<noteq> CHR ''/'') (dropWhile (\<lambda>c. c = CHR ''/'') (rev p)))"

text \<open>\<^verbatim>\<open>s.startsWith(p)\<close>.\<close>

definition startsWith :: "string \<Rightarrow> string \<Rightarrow> bool" where
  "startsWith s p = (take (length p) s = p)"

section \<open>The file system\<close>

text \<open>
  The files and directories the process sees, keyed by normalized paths relative to the
  working directory (every path the server opens comes from \<^verbatim>\<open>path.join\<close> or is a
  literal name). The working directory itself, \<^verbatim>\<open>.\<close>, always exists, and so do the
  directories above it, \<^verbatim>\<open>..\<close>, \<^verbatim>\<open>../..\<close> and so on.
\<close>

record filesystem =
  files :: "string \<rightharpoonup> jstext"
  dirs :: "string set"

text \<open>
  Node refuses a path with a NUL in it (a TypeError, before any system call), and the
  system refuses a path that is too long: Linux allows a component of \<open>NAME_MAX\<close> bytes
  and a path of fewer than \<open>PATH_MAX\<close> bytes. A code unit of 128 or more takes two
  bytes in UTF-8.
\<close>

definition NAME_MAX :: nat where
  "NAME_MAX = 255"

definition PATH_MAX :: nat where
  "PATH_MAX = 4096"

definition utf8_length :: "string \<Rightarrow> nat" where
  "utf8_length s = length s + length (filter digit7 s)"

definition path_error :: "string \<Rightarrow> js_error option" where
  "path_error p =
     (if CHR 0x00 \<in> set p then Some TypeError
      else if PATH_MAX \<le> utf8_length p \<or>
              list_ex (\<lambda>s. NAME_MAX < utf8_length s) (split_on CHR ''/'' p)
      then Some ENAMETOOLONG
      else None)"

definition only_parents :: "string \<Rightarrow> bool" where
  "only_parents p = list_all (\<lambda>s. s = ''..'') (split_on CHR ''/'' p)"

definition is_dir :: "filesystem \<Rightarrow> string \<Rightarrow> bool" where
  "is_dir fs p = (p = ''.'' \<or> only_parents p \<or> p \<in> dirs fs)"

text \<open>\<^verbatim>\<open>fs.existsSync\<close> is false for a path that cannot be looked up.\<close>

definition existsSync :: "filesystem \<Rightarrow> string \<Rightarrow> bool" where
  "existsSync fs p = (path_error p = None \<and> (is_dir fs p \<or> files fs p \<noteq> None))"

text \<open>The directory a path's last component lives in.\<close>

definition parent_dir :: "string \<Rightarrow> string" where
  "parent_dir p =
     (if CHR ''/'' \<in> set p
      then (let d = rev (tl (dropWhile (\<lambda>c. c \<noteq> CHR ''/'') (rev p))) in if d = [] then ''/'' else d)
      else ''.'')"

definition readFileSync :: "filesystem \<Rightarrow> string \<Rightarrow> js_error + jstext" where
  "readFileSync fs p =
     (case path_error p of
        Some e \<Rightarrow> Inl e
      | None \<Rightarrow>
          if is_dir fs p then Inl EISDIR
          else (case files fs p of None \<Rightarrow> Inl ENOENT | Some c \<Rightarrow> Inr c))"

definition writeFileSync :: "filesystem \<Rightarrow> string \<Rightarrow> jstext \<Rightarrow> js_error + filesystem" where
  "writeFileSync fs p c =
     (case path_error p of
        Some e \<Rightarrow> Inl e
      | None \<Rightarrow>
          if is_dir fs p then Inl EISDIR
          else if is_dir fs (parent_dir p) then Inr (fs\<lparr>files := (files fs)(p \<mapsto> c)\<rparr>)
          else Inl ENOENT)"

section \<open>HTTP responses\<close>

text \<open>
  \<^verbatim>\<open>res.status(n).json(body)\<close> is \<open>Reply n body\<close> (\<^verbatim>\<open>res.json(body)\<close> has status
  200); \<^verbatim>\<open>res.download(path)\<close> sends the file's contents, and fails over to
  Express's error handling when the path is not a regular file.
\<close>

datatype response =
    Reply nat json
  | Download jstext
  | Unhandled js_error

definition download :: "filesystem \<Rightarrow> string \<Rightarrow> response" where
  "download fs p = (case readFileSync fs p of Inl e \<Rightarrow> Unhandled e | Inr c \<Rightarrow> Download c)"

section \<open>Result File Archive: reading\<close>

text \<open>
  \<^verbatim>\<open>app.get("/api/results/:filename")\<close>, lines 111 to 129. \<open>cwd\<close> is
  \<^verbatim>\<open>process.cwd()\<close>, which \<^verbatim>\<open>path.resolve\<close> reads.
\<close>

definition get_result_file :: "string \<Rightarrow> filesystem \<Rightarrow> string \<Rightarrow> response" where
  "get_result_file cwd fs param =
     (let filename = basename param;
          filepath = path_join [''results'', filename]
      in if \<not> startsWith filepath (path_resolve cwd [''results''])
         then Reply 403 (JObj [(''error'', JStr ''Access denied'')])
         else if existsSync fs filepath then download fs filepath
         else Reply 404 (JObj [(''error'', JStr ''File not found'')]))"

section \<open>Result File Archive: saving\<close>

text \<open>
  A \<^verbatim>\<open>Date\<close> as its UTC fields, which is all \<^verbatim>\<open>toISOString\<close> reads. A valid date
  has \<open>month\<close> and \<open>day\<close> of two digits, \<open>hours\<close>, \<open>minutes\<close>, \<open>seconds\<close> below 60
  and \<open>milliseconds\<close> below 1000.
\<close>

record date =
  year :: int
  month :: nat
  day :: nat
  hours :: nat
  minutes :: nat
  seconds :: nat
  milliseconds :: nat

definition digit :: "nat \<Rightarrow> char" where
  "digit n = ''0123456789'' ! (n mod 10)"

text \<open>The last \<open>k\<close> decimal digits of \<open>n\<close>, zero-padded on the left.\<close>

fun pad :: "nat \<Rightarrow> nat \<Rightarrow> string" where
  "pad 0 n = []"
| "pad (Suc k) n = pad k (n div 10) @ [digit n]"

text \<open>
  \<^verbatim>\<open>Date.prototype.toISOString\<close>: \<^verbatim>\<open>YYYY-MM-DDTHH:mm:ss.sssZ\<close>, the year with a sign
  and six digits when it is outside 0 to 9999.
\<close>

definition year_string :: "int \<Rightarrow> string" where
  "year_string y =
     (if 0 \<le> y \<and> y \<le> 9999 then pad 4 (nat y)
      else (if y < 0 then ''-'' else ''+'') @ pad 6 (nat \<bar>y\<bar>))"

definition toISOString :: "date \<Rightarrow> string" where
  "toISOString d =
     year_string (year d) @ ''-'' @ pad 2 (month d) @ ''-'' @ pad 2 (day d) @ ''T'' @
     pad 2 (hours d) @ '':'' @ pad 2 (minutes d) @ '':'' @ pad 2 (seconds d) @ ''.'' @
     pad 3 (milliseconds d) @ ''Z''"

text \<open>\<^verbatim>\<open>s.replace(/[:.]/g, "-")\<close>.\<close>

definition replace_colon_dot :: "string \<Rightarrow> string" where
  "replace_colon_dot s = map (\<lambda>c. if c = CHR '':'' \<or> c = CHR ''.'' then CHR ''-'' else c) s"

text \<open>\<^verbatim>\<open>s.slice(0, -k)\<close>.\<close>

definition slice_end :: "string \<Rightarrow> nat \<Rightarrow> string" where
  "slice_end s k = take (length s - k) s"

text \<open>
  The class \<^verbatim>\<open>\s\<close> on code units below 256: tab, line feed, vertical tab, form
  feed, carriage return, space and no-break space.
\<close>

definition is_space :: "char \<Rightarrow> bool" where
  "is_space c =
     (c \<in> set [CHR 0x09, CHR 0x0A, CHR 0x0B, CHR 0x0C, CHR 0x0D, CHR '' '', CHR 0xA0])"

text \<open>\<^verbatim>\<open>s.replace(/\s+/g, "_")\<close>: every maximal run of white space becomes one underscore.\<close>

function replace_space_runs :: "string \<Rightarrow> string" where
  "replace_space_runs [] = []"
| "replace_space_runs (c # cs) =
     (if is_space c then CHR ''_'' # replace_space_runs (dropWhile is_space cs)
      else c # replace_space_runs cs)"
  by pat_completeness auto
termination
  by (relation "measure length") (auto simp: length_dropWhile_le less_Suc_eq_le)

text \<open>
  Line 79: \<^verbatim>\<open>result.metadata?.doctor_name?.replace(/\s+/g, "_") || "unknown"\<close>, for a
  truthy \<open>result\<close>. A doctor name that is neither nullish nor a string has no
  \<^verbatim>\<open>replace\<close> method, and the call raises a TypeError.
\<close>

definition doctor_name_of :: "json \<Rightarrow> jsval" where
  "doctor_name_of result = opt_chain (get_prop result ''metadata'') ''doctor_name''"

definition doctorName :: "json \<Rightarrow> js_error + string" where
  "doctorName result =
     (case doctor_name_of result of
        None \<Rightarrow> Inr ''unknown''
      | Some JNull \<Rightarrow> Inr ''unknown''
      | Some (JStr s) \<Rightarrow>
          (let r = replace_space_runs s in Inr (if r = [] then ''unknown'' else r))
      | Some v \<Rightarrow> Inl TypeError)"

definition timestamp :: "date \<Rightarrow> string" where
  "timestamp now = slice_end (replace_colon_dot (toISOString now)) 5"

definition archive_filename :: "string \<Rightarrow> string \<Rightarrow> string" where
  "archive_filename doctor ts = ''prescription_'' @ doctor @ ''_'' @ ts @ ''.json''"

text \<open>Lines 78 to 80, for a truthy \<open>result\<close>: the file name, or the error raised.\<close>

definition result_filename :: "date \<Rightarrow> json \<Rightarrow> js_error + string" where
  "result_filename now result =
     (case doctorName result of
        Inl e \<Rightarrow> Inl e
      | Inr doctor \<Rightarrow> Inr (archive_filename doctor (timestamp now)))"

text \<open>
  Lines 78 to 83: the file name, the path and the file system after the write, or the
  error raised.
\<close>

definition save_result_file ::
  "filesystem \<Rightarrow> date \<Rightarrow> json \<Rightarrow> js_error + (string \<times> string \<times> filesystem)" where
  "save_result_file fs now result =
     (case result_filename now result of
        Inl e \<Rightarrow> Inl e
      | Inr filename \<Rightarrow>
          (let filepath = path_join [''results'', filename]
           in case writeFileSync fs filepath (JSON_stringify result) of
                Inl e \<Rightarrow> Inl e
              | Inr fs' \<Rightarrow> Inr (filename, filepath, fs')))"

text \<open>\<^verbatim>\<open>app.post("/api/save-result")\<close>, lines 71 to 95; \<open>body\<close> is \<^verbatim>\<open>req.body\<close>.\<close>

definition post_save_result :: "filesystem \<Rightarrow> date \<Rightarrow> jsval \<Rightarrow> response \<times> filesystem" where
  "post_save_result fs now body =
     (case destructure body ''result'' of
        Inl e \<Rightarrow> (Reply 500 (JObj [(''error'', JStr ''Failed to save result'')]), fs)
      | Inr result \<Rightarrow>
          (case result of
             None \<Rightarrow> (Reply 400 (JObj [(''error'', JStr ''No result data provided'')]), fs)
           | Some r \<Rightarrow>
               if \<not> truthy r
               then (Reply 400 (JObj [(''error'', JStr ''No result data provided'')]), fs)
               else (case save_result_file fs now r of
                       Inl e \<Rightarrow> (Reply 500 (JObj [(''error'', JStr ''Failed to save result'')]), fs)
                     | Inr (filename, filepath, fs') \<Rightarrow>
                         (Reply 200 (JObj [(''success'', JBool True),
                                           (''filename'', JStr filename),
                                           (''filepath'', JStr filepath),
                                           (''message'', JStr (''Result saved to '' @ filename))]),
                          fs'))))"

text \<open>
  A path lies in the results directory when its resolved absolute form is below the
  resolved absolute form of \<^verbatim>\<open>results\<close>.
\<close>

definition in_results_dir :: "string \<Rightarrow> string \<Rightarrow> bool" where
  "in_results_dir cwd p =
     startsWith (path_resolve cwd [p]) (path_resolve cwd [''results''] @ ''/'')"

section \<open>Result Store\<close>

definition DB_FILE :: string where
  "DB_FILE = ''prescriptions.json''"

text \<open>\<^verbatim>\<open>initDb\<close>, lines 10 to 14.\<close>

definition initDb :: "filesystem \<Rightarrow> js_error + filesystem" where
  "initDb fs =
     (if \<not> existsSync fs DB_FILE then writeFileSync fs DB_FILE (JSON_stringify (JArr []))
      else Inr fs)"

text \<open>\<^verbatim>\<open>initDb\<close> run \<open>n\<close> times in a row (once per process start).\<close>

fun init_times :: "nat \<Rightarrow> filesystem \<Rightarrow> js_error + filesystem" where
  "init_times 0 fs = Inr fs"
| "init_times (Suc n) fs =
     (case initDb fs of Inl e \<Rightarrow> Inl e | Inr fs' \<Rightarrow> init_times n fs')"

text \<open>\<^verbatim>\<open>getPrescriptions\<close>, lines 16 to 19.\<close>

definition getPrescriptions :: "filesystem \<Rightarrow> js_error + json" where
  "getPrescriptions fs =
     (case readFileSync fs DB_FILE of Inl e \<Rightarrow> Inl e | Inr t \<Rightarrow> JSON_parse t)"

text \<open>
  The object \<^verbatim>\<open>newPrescription\<close> of \<^verbatim>\<open>savePrescription\<close>; its \<^verbatim>\<open>data\<close> is the
  caller's value and may be \<^verbatim>\<open>undefined\<close>.
\<close>

record prescription_record =
  rec_id :: int
  rec_data :: jsval
  created_at :: string

text \<open>
  What \<^verbatim>\<open>JSON.stringify\<close> writes for such an object: a property whose value is
  \<^verbatim>\<open>undefined\<close> is left out.
\<close>

definition record_json :: "prescription_record \<Rightarrow> json" where
  "record_json r =
     JObj ([(''id'', JNum (of_int (rec_id r)))] @
           (case rec_data r of None \<Rightarrow> [] | Some d \<Rightarrow> [(''data'', d)]) @
           [(''created_at'', JStr (created_at r))])"

text \<open>
  \<^verbatim>\<open>savePrescription\<close>, lines 21 to 31. \<open>now_ms\<close> is what \<^verbatim>\<open>Date.now()\<close> returns
  and \<open>now\<close> the \<^verbatim>\<open>new Date()\<close> of line 26. \<^verbatim>\<open>push\<close> exists on arrays only.
\<close>

definition savePrescription ::
  "filesystem \<Rightarrow> int \<Rightarrow> date \<Rightarrow> jsval \<Rightarrow> js_error + (prescription_record \<times> filesystem)" where
  "savePrescription fs now_ms now prescription =
     (case getPrescriptions fs of
        Inl e \<Rightarrow> Inl e
      | Inr prescriptions \<Rightarrow>
          (let newPrescription =
                 \<lparr>rec_id = now_ms, rec_data = prescription, created_at = toISOString now\<rparr>
           in case prescriptions of
                JArr xs \<Rightarrow>
                  (case writeFileSync fs DB_FILE
                          (JSON_stringify (JArr (xs @ [record_json newPrescription]))) of
                     Inl e \<Rightarrow> Inl e
                   | Inr fs' \<Rightarrow> Inr (newPrescription, fs'))
              | _ \<Rightarrow> Inl TypeError))"

text \<open>\<^verbatim>\<open>app.post("/api/prescriptions")\<close>, lines 59 to 68.\<close>

definition post_prescriptions ::
  "filesystem \<Rightarrow> int \<Rightarrow> date \<Rightarrow> jsval \<Rightarrow> response \<times> filesystem" where
  "post_prescriptions fs now_ms now body =
     (case destructure body ''data'' of
        Inl e \<Rightarrow> (Reply 500 (JObj [(''error'', JStr ''Failed to save prescription'')]), fs)
      | Inr data \<Rightarrow>
          (case savePrescription fs now_ms now data of
             Inl e \<Rightarrow> (Reply 500 (JObj [(''error'', JStr ''Failed to save prescription'')]), fs)
           | Inr (saved, fs') \<Rightarrow>
               (Reply 200 (JObj [(''success'', JBool True), (''id'', JNum (of_int (rec_id saved)))]),
                fs')))"

text \<open>\<^verbatim>\<open>app.get("/api/prescriptions")\<close>, lines 132 to 139.\<close>

definition get_prescriptions :: "filesystem \<Rightarrow> response" where
  "get_prescriptions fs =
     (case getPrescriptions fs of
        Inl e \<Rightarrow> Reply 500 (JObj [(''error'', JStr ''Failed to fetch history'')])
      | Inr prescriptions \<Rightarrow> Reply 200 prescriptions)"

text \<open>
  A run of appends, one after the other: each is a payload with the two clock readings
  of its call. The run stops at the first error.
\<close>

fun append_all :: "filesystem \<Rightarrow> (jsval \<times> int \<times> date) list \<Rightarrow> js_error + filesystem" where
  "append_all fs [] = Inr fs"
| "append_all fs ((payload, now_ms, now) # rest) =
     (case savePrescription fs now_ms now payload of
        Inl e \<Rightarrow> Inl e
      | Inr (saved, fs') \<Rightarrow> append_all fs' rest)"

text \<open>The record an append leaves in the store file, as a later read parses it.\<close>

definition stored :: "jsval \<times> int \<times> date \<Rightarrow> json" where
  "stored a =
     (case a of (payload, now_ms, now) \<Rightarrow>
        jsonify (record_json
          \<lparr>rec_id = now_ms, rec_data = payload, created_at = toISOString now\<rparr>))"

text \<open>The \<^verbatim>\<open>id\<close> of a listed record, when it is a number.\<close>

definition id_of :: "json \<Rightarrow> real option" where
  "id_of r = (case get_prop r ''id'' of Some (JNum x) \<Rightarrow> Some x | _ \<Rightarrow> None)"

text \<open>
  The ids of the listed records are numbers and each is smaller than every later one.
\<close>

definition ids_increasing :: "json list \<Rightarrow> bool" where
  "ids_increasing rs =
     sorted_wrt (\<lambda>a b. case (id_of a, id_of b) of (Some x, Some y) \<Rightarrow> x < y | _ \<Rightarrow> False) rs"

section \<open>Extraction Client\<close>

text \<open>
  \<^verbatim>\<open>processPrescriptionImage\<close> of \<^verbatim>\<open>src/services/gemini.ts\<close>. A request to the
  provider carries the model name and the inline image data (the instruction text and
  the response schema are the same in every request and are left out). The provider is
  a function from the request to its outcome: the call is rejected, or it answers with
  a response whose \<^verbatim>\<open>text\<close> is a string or \<^verbatim>\<open>undefined\<close>.
\<close>

record inline_data =
  data :: string
  mimeType :: string

record gen_request =
  model :: string
  inlineData :: inline_data

datatype gen_outcome = Rejected js_error | Response "jstext option"

text \<open>Element \<open>i\<close> of an array, \<^verbatim>\<open>undefined\<close> past its end.\<close>

definition element :: "'a list \<Rightarrow> nat \<Rightarrow> 'a option" where
  "element xs i = (if i < length xs then Some (xs ! i) else None)"

text \<open>Line 70: \<^verbatim>\<open>base64Image.split(",")[1] || base64Image\<close>.\<close>

definition image_data :: "string \<Rightarrow> string" where
  "image_data base64Image =
     (case element (split_on CHR '','' base64Image) 1 of
        None \<Rightarrow> base64Image
      | Some s \<Rightarrow> if s \<noteq> [] then s else base64Image)"

text \<open>
  What the specification calls the payload with its metadata prefix stripped: all that
  follows the first comma.
\<close>

definition after_first_comma :: "string \<Rightarrow> string" where
  "after_first_comma b = tl (dropWhile (\<lambda>c. c \<noteq> CHR '','') b)"

definition extraction_request :: "string \<Rightarrow> string \<Rightarrow> gen_request" where
  "extraction_request base64Image mime =
     \<lparr>model = ''gemini-3-flash-preview'',
      inlineData = \<lparr>data = image_data base64Image, mimeType = mime\<rparr>\<rparr>"

text \<open>
  The function returns its result or the error it throws, and the list of the requests
  it sent to the provider.
\<close>

definition processPrescriptionImage ::
  "(gen_request \<Rightarrow> gen_outcome) \<Rightarrow> string \<Rightarrow> string \<Rightarrow> (js_error + json) \<times> gen_request list" where
  "processPrescriptionImage provider base64Image mime =
     (let request = extraction_request base64Image mime;
          result =
            (case provider request of
               Rejected e \<Rightarrow> Inl e
             | Response None \<Rightarrow> Inl (Error ''No response from AI'')
             | Response (Some t) \<Rightarrow>
                 if t = PlainText [] then Inl (Error ''No response from AI'')
                 else JSON_parse t)
      in (result, [request]))"

section \<open>Example inputs\<close>

text \<open>
  A working directory after start-up (an empty store, the \<^verbatim>\<open>results\<close> and
  \<^verbatim>\<open>uploads\<close> directories) and the instant 2024-01-15T10:30:45.123Z.
\<close>

definition example_fs :: filesystem where
  "example_fs = \<lparr>files = [DB_FILE \<mapsto> JsonText (JArr [])], dirs = {''results'', ''uploads''}\<rparr>"

definition example_date :: date where
  "example_date =
     \<lparr>year = 2024, month = 1, day = 15, hours = 10, minutes = 30, seconds = 45,
      milliseconds = 123\<rparr>"

text \<open>An extraction result as the provider returns it, for a given doctor name.\<close>

definition result_of_doctor :: "string \<Rightarrow> json" where
  "result_of_doctor name =
     JObj [(''status'', JStr ''success''),
           (''confidence'', JNum 0.95),
           (''extracted_text'', JStr ''Amoxicillin 500mg twice a day''),
           (''medications'',
              JArr [JObj [(''name'', JStr ''Amoxicillin''), (''dosage'', JStr ''500mg''),
                          (''frequency'', JStr ''twice a day''), (''duration'', JStr ''7 days''),
                          (''quantity'', JNum 14), (''instructions'', JStr ''''),
                          (''confidence'', JNum 0.9)]]),
           (''metadata'',
              JObj [(''prescription_date'', JStr ''2024-01-15''),
                    (''doctor_name'', JStr name),
                    (''image_quality'', JStr ''good''),
                    (''has_handwriting'', JBool False)]),
           (''errors'', JArr [])]"

section \<open>Facts about paths\<close>

lemma split_on_no_sep: "t \<in> set (split_on c s) \<Longrightarrow> c \<notin> set t"
  by (induction s arbitrary: t) (auto split: list.splits if_splits)

lemma seg_ok_dotdot: "seg_ok ''..''"
  by (simp add: seg_ok_def)

lemma normalize_segments_ok:
  "list_all seg_ok kept \<Longrightarrow> list_all (\<lambda>t. CHR ''/'' \<notin> set t) ss \<Longrightarrow>
   list_all seg_ok (normalize_segments up kept ss)"
proof (induction ss arbitrary: kept)
  case Nil
  then show ?case by simp
next
  case (Cons s ss)
  have ss: "list_all (\<lambda>t. CHR ''/'' \<notin> set t) ss" and s: "CHR ''/'' \<notin> set s"
    using Cons.prems(2) by simp_all
  show ?case
  proof (cases "s = [] \<or> s = ''.''")
    case True
    then show ?thesis using Cons.IH [OF Cons.prems(1) ss] by auto
  next
    case skip: False
    show ?thesis
    proof (cases "s = ''..''")
      case dd: True
      show ?thesis
      proof (cases kept)
        case Nil
        have "list_all seg_ok (if up then [''..''] else [])"
          by (simp add: seg_ok_dotdot)
        from Cons.IH [OF this ss] show ?thesis using Nil dd by simp
      next
        case (Cons t ts)
        have ts: "list_all seg_ok ts" using Cons.prems(1) Cons by simp
        have k: "list_all seg_ok (if up then ''..'' # kept else kept)"
          using Cons.prems(1) by (simp add: seg_ok_dotdot)
        show ?thesis
          using Cons.IH [OF ts ss] Cons.IH [OF k ss] Cons dd
          by (cases up; cases "t = ''..''"; simp)
      qed
    next
      case False
      have "seg_ok s" using skip s by (simp add: seg_ok_def)
      then have "list_all seg_ok (s # kept)"
        using Cons.prems(1) by simp
      from Cons.IH [OF this ss] show ?thesis using skip False by simp
    qed
  qed
qed

lemma join_with_not_absolute:
  "list_all seg_ok ss \<Longrightarrow> \<not> is_absolute (join_with ''/'' ss)"
proof (cases ss)
  case Nil
  then show ?thesis by (simp add: is_absolute_def)
next
  case (Cons s ts)
  assume "list_all seg_ok ss"
  then obtain c cs where "s = c # cs" "c \<noteq> CHR ''/''"
    using Cons by (cases s) (auto simp: seg_ok_def)
  then show ?thesis using Cons by (cases ts) (simp_all add: is_absolute_def)
qed

lemma normalizeString_not_absolute: "\<not> is_absolute (normalizeString p up)"
  unfolding normalizeString_def
  by (rule join_with_not_absolute, rule normalize_segments_ok)
     (simp_all add: list_all_iff split_on_no_sep)

lemma normalize_relative: "\<not> is_absolute p \<Longrightarrow> \<not> is_absolute (normalize p)"
  using normalizeString_not_absolute [of p True]
  by (auto simp: normalize_def Let_def is_absolute_def split: list.splits)

lemma join_results_relative: "\<not> is_absolute (path_join [''results'', f])"
proof -
  have "\<not> is_absolute (normalize (''results'' @ g))" for g
    by (rule normalize_relative) (simp add: is_absolute_def)
  from this [of "[]"] this [of "''/'' @ f"] show ?thesis
    by (cases "f = []") (simp_all add: path_join_def)
qed

lemma resolve_absolute: "is_absolute cwd \<Longrightarrow> is_absolute (path_resolve cwd [''results''])"
  by (auto simp: path_resolve_def is_absolute_def Let_def split: list.splits)

lemma startsWith_absolute: "is_absolute p \<Longrightarrow> \<not> is_absolute s \<Longrightarrow> \<not> startsWith s p"
  by (auto simp: startsWith_def is_absolute_def split: list.splits)

lemma results_path_never_confined:
  "is_absolute cwd \<Longrightarrow> \<not> startsWith (path_join [''results'', f]) (path_resolve cwd [''results''])"
  by (rule startsWith_absolute [OF resolve_absolute join_results_relative])

section \<open>Reading an archived file\<close>

text \<open>
  C1. The claim: the read endpoint serves the file exactly when the confined path
  exists, answers 403 when the path escapes the results directory and 404 when the
  confined path does not exist. The handler compares the relative path that
  \<^verbatim>\<open>path.join("results", filename)\<close> returns with the absolute path that
  \<^verbatim>\<open>path.resolve("results")\<close> returns. The working directory of a process is an
  absolute path, so the first never starts with the second: whatever the file name
  and whatever the results directory holds, the answer is 403, and no file is ever
  served.
\<close>

theorem download_always_denied:
  assumes "is_absolute cwd"
  shows "get_result_file cwd fs param = Reply 403 (JObj [(''error'', JStr ''Access denied'')])"
  unfolding get_result_file_def Let_def
  using results_path_never_confined [OF assms] by simp

theorem download_always_denied_witness:
  "is_absolute ''/app'' \<and>
   existsSync \<lparr>files = [''results/a.json'' \<mapsto> JsonText (JObj [])], dirs = {''results''}\<rparr>
     (path_join [''results'', basename ''a.json'']) \<and>
   get_result_file ''/app''
     \<lparr>files = [''results/a.json'' \<mapsto> JsonText (JObj [])], dirs = {''results''}\<rparr> ''a.json''
   = Reply 403 (JObj [(''error'', JStr ''Access denied'')])"
proof -
  have a: "is_absolute ''/app''"
    by (simp add: is_absolute_def)
  have p: "path_join [''results'', basename ''a.json''] = ''results/a.json''"
    by (simp add: path_join_def basename_def normalize_def normalizeString_def is_absolute_def)
  show ?thesis
    using a download_always_denied [OF a]
    by (simp add: p existsSync_def path_error_def utf8_length_def NAME_MAX_def PATH_MAX_def)
qed

section \<open>Facts about dates\<close>

lemma pad_2: "pad 2 n = [digit (n div 10), digit n]"
  by (simp add: numeral_2_eq_2)

lemma pad_3: "pad 3 n = [digit (n div 100), digit (n div 10), digit n]"
  by (simp add: numeral_3_eq_3 div_mult2_eq [symmetric])

lemma pad_4: "pad 4 n = [digit (n div 1000), digit (n div 100), digit (n div 10), digit n]"
proof -
  have "(4::nat) = Suc 3"
    by simp
  then have "pad 4 n = pad (Suc 3) n"
    by (rule arg_cong)
  also have "\<dots> = pad 3 (n div 10) @ [digit n]"
    by (simp only: pad.simps)
  finally show ?thesis
    by (simp add: pad_3 div_mult2_eq [symmetric])
qed

lemma pad_6:
  "pad 6 n = [digit (n div 100000), digit (n div 10000), digit (n div 1000), digit (n div 100),
              digit (n div 10), digit n]"
proof -
  have "(6::nat) = Suc (Suc 4)"
    by simp
  then have "pad 6 n = pad (Suc (Suc 4)) n"
    by (rule arg_cong)
  also have "\<dots> = pad 4 (n div 10 div 10) @ [digit (n div 10), digit n]"
    by (simp only: pad.simps append.simps append_assoc)
  finally show ?thesis
    by (simp add: pad_4 div_mult2_eq [symmetric])
qed

lemma example_iso: "toISOString example_date = ''2024-01-15T10:30:45.123Z''"
  by (simp add: toISOString_def example_date_def year_string_def pad_2 pad_3 pad_4 digit_def)

lemma digit_in: "digit n \<in> set ''0123456789''"
proof -
  have "n mod 10 < length ''0123456789''" by simp
  then show ?thesis unfolding digit_def by (rule nth_mem)
qed

lemma digit_plain: "digit n \<noteq> CHR '':'' \<and> digit n \<noteq> CHR ''.''"
  using digit_in [of n] by auto

lemma replace_colon_dot_append:
  "replace_colon_dot (a @ b) = replace_colon_dot a @ replace_colon_dot b"
  by (simp add: replace_colon_dot_def)

lemma replace_colon_dot_pad: "replace_colon_dot (pad k n) = pad k n"
  by (induction k arbitrary: n) (simp_all add: replace_colon_dot_def digit_plain)

lemma length_pad: "length (pad k n) = k"
  by (induction k arbitrary: n) simp_all

lemma replace_colon_dot_year: "replace_colon_dot (year_string y) = year_string y"
  by (simp add: year_string_def replace_colon_dot_append replace_colon_dot_pad)
     (simp add: replace_colon_dot_def)

lemma slice_end_append: "length b = k \<Longrightarrow> slice_end (a @ b) k = a"
  by (simp add: slice_end_def)

lemma timestamp_format:
  "timestamp now =
     year_string (year now) @ ''-'' @ pad 2 (month now) @ ''-'' @ pad 2 (day now) @ ''T'' @
     pad 2 (hours now) @ ''-'' @ pad 2 (minutes now) @ ''-'' @ pad 2 (seconds now)"
proof -
  let ?keep = "year_string (year now) @ ''-'' @ pad 2 (month now) @ ''-'' @ pad 2 (day now) @ ''T'' @
     pad 2 (hours now) @ ''-'' @ pad 2 (minutes now) @ ''-'' @ pad 2 (seconds now)"
  let ?cut = "''-'' @ pad 3 (milliseconds now) @ ''Z''"
  have "replace_colon_dot (toISOString now) = ?keep @ ?cut"
    unfolding toISOString_def replace_colon_dot_append replace_colon_dot_pad replace_colon_dot_year
    by (simp add: replace_colon_dot_def)
  moreover have "length ?cut = 5"
    by (simp add: length_pad)
  ultimately show ?thesis
    unfolding timestamp_def by (simp only: slice_end_append)
qed

lemma example_timestamp: "timestamp example_date = ''2024-01-15T10-30-45''"
  by (simp add: timestamp_format example_date_def year_string_def pad_2 pad_4 digit_def)

section \<open>Result Store\<close>

lemma jsonify_idem: "jsonify (jsonify v) = jsonify v"
  by (induction v rule: jsonify.induct) auto

lemma jsonify_finite: "json_finite v \<Longrightarrow> jsonify v = v"
  by (induction v rule: jsonify.induct) (auto simp: list_all_iff intro!: map_idI)

lemma parent_dir_DB_FILE: "parent_dir DB_FILE = ''.''"
  by (simp add: parent_dir_def DB_FILE_def)

lemma path_error_DB_FILE: "path_error DB_FILE = None"
  by (simp add: path_error_def DB_FILE_def utf8_length_def NAME_MAX_def PATH_MAX_def)

lemma is_dir_DB_FILE: "is_dir fs DB_FILE = (DB_FILE \<in> dirs fs)"
  by (simp add: is_dir_def only_parents_def DB_FILE_def)

lemma is_dir_cwd: "is_dir fs ''.''"
  by (simp add: is_dir_def)

lemma write_DB_FILE:
  "\<not> is_dir fs DB_FILE \<Longrightarrow> writeFileSync fs DB_FILE c = Inr (fs\<lparr>files := (files fs)(DB_FILE \<mapsto> c)\<rparr>)"
  by (simp add: writeFileSync_def path_error_DB_FILE parent_dir_DB_FILE is_dir_cwd)

lemma initDb_result:
  "initDb fs = Inr (if existsSync fs DB_FILE then fs
                    else fs\<lparr>files := (files fs)(DB_FILE \<mapsto> JsonText (JArr []))\<rparr>)"
  by (simp add: initDb_def write_DB_FILE existsSync_def path_error_DB_FILE JSON_stringify_def)

lemma exists_after_initDb:
  "existsSync (if existsSync fs DB_FILE then fs
               else fs\<lparr>files := (files fs)(DB_FILE \<mapsto> JsonText (JArr []))\<rparr>) DB_FILE"
  by (simp add: existsSync_def path_error_DB_FILE)

text \<open>
  C8. \<^verbatim>\<open>initDb\<close> always succeeds; it leaves a file system that already has the
  store file as it is, and otherwise adds the store file holding the empty array. Run
  on its own result it changes nothing, so any number of runs in a row gives what one
  run gives.
\<close>

theorem initDb_idempotent:
  "\<exists>fs'. initDb fs = Inr fs' \<and> initDb fs' = Inr fs' \<and> init_times (Suc n) fs = Inr fs' \<and>
     (existsSync fs DB_FILE \<longrightarrow> fs' = fs) \<and>
     (\<not> existsSync fs DB_FILE \<longrightarrow>
        fs' = fs\<lparr>files := (files fs)(DB_FILE \<mapsto> JSON_stringify (JArr []))\<rparr>)"
proof -
  define fs' where "fs' = (if existsSync fs DB_FILE then fs
                    else fs\<lparr>files := (files fs)(DB_FILE \<mapsto> JsonText (JArr []))\<rparr>)"
  have 1: "initDb fs = Inr fs'"
    by (simp add: fs'_def initDb_result)
  have ex: "existsSync fs' DB_FILE"
    unfolding fs'_def by (rule exists_after_initDb)
  then have 2: "initDb fs' = Inr fs'"
    by (simp add: initDb_def)
  have 3: "init_times k fs' = Inr fs'" for k
    by (induction k) (simp_all add: 2)
  have 4: "init_times (Suc n) fs = Inr fs'"
    by (simp add: 1 3)
  show ?thesis
    using 1 2 4 by (auto simp: fs'_def JSON_stringify_def)
qed

theorem initDb_idempotent_witness:
  "(\<exists>fs'. initDb \<lparr>files = Map.empty, dirs = {}\<rparr> = Inr fs' \<and> initDb fs' = Inr fs' \<and>
      init_times (Suc 2) \<lparr>files = Map.empty, dirs = {}\<rparr> = Inr fs' \<and>
      fs' = \<lparr>files = [DB_FILE \<mapsto> JSON_stringify (JArr [])], dirs = {}\<rparr>) \<and>
   \<not> existsSync \<lparr>files = Map.empty, dirs = {}\<rparr> DB_FILE \<and>
   existsSync \<lparr>files = [DB_FILE \<mapsto> PlainText ''old''], dirs = {}\<rparr> DB_FILE \<and>
   init_times (Suc 2) \<lparr>files = [DB_FILE \<mapsto> PlainText ''old''], dirs = {}\<rparr>
     = Inr \<lparr>files = [DB_FILE \<mapsto> PlainText ''old''], dirs = {}\<rparr>"
proof -
  have a: "\<not> existsSync \<lparr>files = Map.empty, dirs = {}\<rparr> DB_FILE"
    by (simp add: existsSync_def is_dir_DB_FILE)
  have b: "existsSync \<lparr>files = [DB_FILE \<mapsto> PlainText ''old''], dirs = {}\<rparr> DB_FILE"
    by (simp add: existsSync_def path_error_DB_FILE)
  show ?thesis
    using initDb_idempotent [of "\<lparr>files = Map.empty, dirs = {}\<rparr>" 2]
      initDb_idempotent [of "\<lparr>files = [DB_FILE \<mapsto> PlainText ''old''], dirs = {}\<rparr>" 2] a b
    by auto
qed

lemma getPrescriptions_Inr:
  "getPrescriptions fs = Inr v \<Longrightarrow> \<not> is_dir fs DB_FILE \<and> files fs DB_FILE = Some (JsonText v)"
  by (auto simp: getPrescriptions_def readFileSync_def path_error_DB_FILE elim: JSON_parse.elims
           split: if_splits option.splits)

lemma getPrescriptions_after_write:
  "\<not> is_dir fs DB_FILE \<Longrightarrow>
   getPrescriptions (fs\<lparr>files := (files fs)(DB_FILE \<mapsto> JsonText v)\<rparr>) = Inr v"
  by (simp add: getPrescriptions_def readFileSync_def path_error_DB_FILE is_dir_DB_FILE)

lemma savePrescription_array:
  assumes "getPrescriptions fs = Inr (JArr xs)"
  shows "savePrescription fs now_ms now p =
           Inr (\<lparr>rec_id = now_ms, rec_data = p, created_at = toISOString now\<rparr>,
                fs\<lparr>files := (files fs)(DB_FILE \<mapsto> JSON_stringify (JArr (xs @
                  [record_json \<lparr>rec_id = now_ms, rec_data = p, created_at = toISOString now\<rparr>])))\<rparr>)"
  using getPrescriptions_Inr [OF assms]
  by (simp add: savePrescription_def assms write_DB_FILE Let_def)

lemma stringify_appended:
  "map jsonify xs = xs \<Longrightarrow>
   JSON_stringify (JArr (xs @
     [record_json \<lparr>rec_id = now_ms, rec_data = p, created_at = toISOString now\<rparr>])) =
   JsonText (JArr (xs @ [stored (p, now_ms, now)]))"
  by (simp add: JSON_stringify_def stored_def)

lemma jsonify_stored: "jsonify (stored a) = stored a"
  by (cases a) (simp add: stored_def jsonify_idem)

lemma stored_data: "get_prop (stored (p, now_ms, now)) ''data'' = map_option jsonify p"
  by (cases p) (simp_all add: stored_def record_json_def)

lemma stored_id: "id_of (stored (p, now_ms, now)) = Some (real_of_int now_ms)"
  by (cases p) (simp_all add: stored_def record_json_def id_of_def)

lemma append_all_state:
  "getPrescriptions fs = Inr (JArr xs) \<Longrightarrow> map jsonify xs = xs \<Longrightarrow> reqs \<noteq> [] \<Longrightarrow>
   append_all fs reqs =
     Inr (fs\<lparr>files := (files fs)(DB_FILE \<mapsto> JsonText (JArr (xs @ map stored reqs)))\<rparr>)"
proof (induction reqs arbitrary: fs xs)
  case Nil
  then show ?case by simp
next
  case (Cons a reqs)
  obtain p now_ms now where a: "a = (p, now_ms, now)" by (cases a)
  let ?fs1 = "fs\<lparr>files := (files fs)(DB_FILE \<mapsto> JsonText (JArr (xs @ [stored (p, now_ms, now)])))\<rparr>"
  have 1: "getPrescriptions ?fs1 = Inr (JArr (xs @ [stored (p, now_ms, now)]))"
    using getPrescriptions_Inr [OF Cons.prems(1)] by (simp add: getPrescriptions_after_write)
  have 2: "map jsonify (xs @ [stored (p, now_ms, now)]) = xs @ [stored (p, now_ms, now)]"
    using Cons.prems(2) by (simp add: jsonify_stored)
  have step: "append_all fs ((p, now_ms, now) # reqs) = append_all ?fs1 reqs"
    by (simp add: savePrescription_array [OF Cons.prems(1)] stringify_appended [OF Cons.prems(2)])
  have "append_all fs ((p, now_ms, now) # reqs) =
     Inr (fs\<lparr>files := (files fs)(DB_FILE \<mapsto>
            JsonText (JArr (xs @ map stored ((p, now_ms, now) # reqs))))\<rparr>)"
  proof (cases "reqs = []")
    case True
    have "append_all ?fs1 reqs = Inr ?fs1"
      unfolding True by simp
    then show ?thesis
      unfolding step by (simp add: True)
  next
    case False
    show ?thesis unfolding step Cons.IH [OF 1 2 False] by simp
  qed
  then show ?case unfolding a .
qed

lemma append_all_empty_store:
  assumes "getPrescriptions fs = Inr (JArr [])"
  shows "\<exists>fs'. append_all fs reqs = Inr fs' \<and> getPrescriptions fs' = Inr (JArr (map stored reqs))"
proof (cases "reqs = []")
  case True
  then show ?thesis using assms by simp
next
  case False
  have "append_all fs reqs =
     Inr (fs\<lparr>files := (files fs)(DB_FILE \<mapsto> JsonText (JArr ([] @ map stored reqs)))\<rparr>)"
    by (rule append_all_state [OF assms _ False]) simp
  then show ?thesis
    using getPrescriptions_Inr [OF assms] by (simp add: getPrescriptions_after_write)
qed

lemma stored_ids: "map id_of (map stored reqs) = map (\<lambda>a. Some (real_of_int (fst (snd a)))) reqs"
  by (induction reqs) (auto simp: stored_id)

lemma stored_datas:
  "map (\<lambda>r. get_prop r ''data'') (map stored reqs) = map (\<lambda>a. map_option jsonify (fst a)) reqs"
  by (induction reqs) (auto simp: stored_data)

lemma finite_payload_kept:
  assumes "i < length reqs"
    and "case fst (reqs ! i) of None \<Rightarrow> True | Some d \<Rightarrow> json_finite d"
  shows "get_prop (map stored reqs ! i) ''data'' = fst (reqs ! i)"
proof -
  obtain p now_ms now where a: "reqs ! i = (p, now_ms, now)"
    by (cases "reqs ! i")
  have "get_prop (map stored reqs ! i) ''data'' = map_option jsonify p"
    using assms(1) by (simp add: a stored_data)
  moreover have "map_option jsonify p = p"
    using assms(2) by (cases p) (simp_all add: a jsonify_finite)
  ultimately show ?thesis by (simp add: a)
qed

lemma ids_increasing_stored:
  "ids_increasing (map stored reqs) = sorted_wrt (<) (map (\<lambda>a. fst (snd a)) reqs)"
  unfolding ids_increasing_def
  by (induction reqs) (auto simp: stored_id sorted_wrt_map)

lemma ids_distinct_stored:
  "distinct (map id_of (map stored reqs)) = distinct (map (\<lambda>a. fst (snd a)) reqs)"
proof -
  have eq: "map id_of (map stored reqs) =
            map (\<lambda>x. Some (real_of_int x)) (map (\<lambda>a. fst (snd a)) reqs)"
    unfolding stored_ids by (simp add: comp_def)
  have inj: "inj_on (\<lambda>x. Some (real_of_int x)) A" for A :: "int set"
    by (simp add: inj_on_def)
  show ?thesis
    unfolding eq by (simp only: distinct_map inj simp_thms)
qed

lemma example_fs_empty: "getPrescriptions example_fs = Inr (JArr [])"
  by (simp add: getPrescriptions_def readFileSync_def path_error_DB_FILE is_dir_DB_FILE)
     (simp add: example_fs_def DB_FILE_def)

text \<open>
  C3, as amended. Appending \<open>N\<close> payloads one after the other to an empty store and
  then listing gives \<open>N\<close> records in the order of the appends. The \<^verbatim>\<open>data\<close> of each
  record is what \<^verbatim>\<open>JSON.parse\<close> reads back from the \<^verbatim>\<open>JSON.stringify\<close> text of its
  payload: \<^verbatim>\<open>null\<close> stands wherever the payload has a number that is not finite, a
  payload that is \<^verbatim>\<open>undefined\<close> leaves no \<^verbatim>\<open>data\<close> key, and a record whose payload
  has no such number carries the payload as it was given. The id of a record is
  the millisecond clock reading of its append: the ids are pairwise distinct exactly
  when the readings are, and strictly increasing exactly when the readings are.
\<close>

theorem appends_then_list:
  assumes "getPrescriptions fs = Inr (JArr [])"
  shows "\<exists>fs'. append_all fs reqs = Inr fs' \<and>
           get_prescriptions fs' = Reply 200 (JArr (map stored reqs)) \<and>
           length (map stored reqs) = length reqs \<and>
           map (\<lambda>r. get_prop r ''data'') (map stored reqs)
             = map (\<lambda>a. map_option jsonify (fst a)) reqs \<and>
           (\<forall>i < length reqs.
              (case fst (reqs ! i) of None \<Rightarrow> True | Some d \<Rightarrow> json_finite d) \<longrightarrow>
              get_prop (map stored reqs ! i) ''data'' = fst (reqs ! i)) \<and>
           map id_of (map stored reqs) = map (\<lambda>a. Some (real_of_int (fst (snd a)))) reqs \<and>
           distinct (map id_of (map stored reqs)) = distinct (map (\<lambda>a. fst (snd a)) reqs) \<and>
           ids_increasing (map stored reqs) = sorted_wrt (<) (map (\<lambda>a. fst (snd a)) reqs)"
proof -
  from append_all_empty_store [OF assms, of reqs]
  obtain fs' where 1: "append_all fs reqs = Inr fs'"
    and 2: "getPrescriptions fs' = Inr (JArr (map stored reqs))"
    by auto
  have 3: "get_prescriptions fs' = Reply 200 (JArr (map stored reqs))"
    by (simp add: get_prescriptions_def 2)
  have 4: "\<forall>i < length reqs.
              (case fst (reqs ! i) of None \<Rightarrow> True | Some d \<Rightarrow> json_finite d) \<longrightarrow>
              get_prop (map stored reqs ! i) ''data'' = fst (reqs ! i)"
    using finite_payload_kept [of _ reqs] by blast
  show ?thesis
    using 1 3 4 stored_datas [of reqs] stored_ids [of reqs] ids_distinct_stored [of reqs]
      ids_increasing_stored [of reqs]
    by (intro exI [of _ fs'] conjI) simp_all
qed

theorem appends_then_list_witness:
  "getPrescriptions example_fs = Inr (JArr []) \<and>
   json_finite (JObj [(''confidence'', JNum 0.95)]) \<and>
   (\<exists>fs'. append_all example_fs
            [(Some (JObj [(''confidence'', JNum 0.95)]), 1705314645123, example_date),
             (None, 1705314645124, example_date)] = Inr fs' \<and>
      get_prescriptions fs' = Reply 200 (JArr
        [JObj [(''id'', JNum 1705314645123), (''data'', JObj [(''confidence'', JNum 0.95)]),
               (''created_at'', JStr ''2024-01-15T10:30:45.123Z'')],
         JObj [(''id'', JNum 1705314645124),
               (''created_at'', JStr ''2024-01-15T10:30:45.123Z'')]])) \<and>
   get_prop (JObj [(''id'', JNum 1705314645123), (''data'', JObj [(''confidence'', JNum 0.95)]),
                   (''created_at'', JStr ''2024-01-15T10:30:45.123Z'')]) ''data''
     = Some (JObj [(''confidence'', JNum 0.95)]) \<and>
   get_prop (JObj [(''id'', JNum 1705314645124),
                   (''created_at'', JStr ''2024-01-15T10:30:45.123Z'')]) ''data''
     = None"
proof -
  let ?reqs = "[(Some (JObj [(''confidence'', JNum 0.95)]), 1705314645123 :: int, example_date),
                (None, 1705314645124, example_date)]"
  have fin: "json_finite (JObj [(''confidence'', JNum 0.95)])"
    by simp
  from appends_then_list [OF example_fs_empty, of ?reqs]
  obtain fs' where 1: "append_all example_fs ?reqs = Inr fs'"
    and 2: "get_prescriptions fs' = Reply 200 (JArr (map stored ?reqs))"
    and imp: "\<forall>i < length ?reqs.
              (case fst (?reqs ! i) of None \<Rightarrow> True | Some d \<Rightarrow> json_finite d) \<longrightarrow>
              get_prop (map stored ?reqs ! i) ''data'' = fst (?reqs ! i)"
    by (elim exE conjE) blast
  have 3: "map stored ?reqs =
        [JObj [(''id'', JNum 1705314645123), (''data'', JObj [(''confidence'', JNum 0.95)]),
               (''created_at'', JStr ''2024-01-15T10:30:45.123Z'')],
         JObj [(''id'', JNum 1705314645124),
               (''created_at'', JStr ''2024-01-15T10:30:45.123Z'')]]"
    by (simp add: stored_def record_json_def example_iso)
  from imp [rule_format, of 0] fin
  have 4: "get_prop (map stored ?reqs ! 0) ''data'' = Some (JObj [(''confidence'', JNum 0.95)])"
    by simp
  from imp [rule_format, of 1]
  have 5: "get_prop (map stored ?reqs ! 1) ''data'' = None"
    by simp
  have ex: "\<exists>fs'. append_all example_fs ?reqs = Inr fs' \<and>
      get_prescriptions fs' = Reply 200 (JArr (map stored ?reqs))"
    using 1 2 by (intro exI [of _ fs'] conjI)
  show ?thesis
    using example_fs_empty fin ex 4 5 unfolding 3 by (intro conjI) simp_all
qed

text \<open>
  The claim as stated fails in two ways. Two appends that read the same millisecond
  get the same id, so the ids are neither pairwise distinct nor strictly increasing.
  And a payload that is \<^verbatim>\<open>Infinity\<close> (what \<^verbatim>\<open>JSON.parse\<close> makes of the body
  \<^verbatim>\<open>{"data": 1e400}\<close>) is listed as \<^verbatim>\<open>null\<close>, not as the payload given.
\<close>

theorem appends_claim_fails:
  "append_all example_fs
     [(Some (JStr ''first''), 1705314645123, example_date),
      (Some (JStr ''second''), 1705314645123, example_date)]
   = Inr (example_fs\<lparr>files := [DB_FILE \<mapsto> JsonText (JArr
       [JObj [(''id'', JNum 1705314645123), (''data'', JStr ''first''),
              (''created_at'', JStr ''2024-01-15T10:30:45.123Z'')],
        JObj [(''id'', JNum 1705314645123), (''data'', JStr ''second''),
              (''created_at'', JStr ''2024-01-15T10:30:45.123Z'')]])]\<rparr>) \<and>
   \<not> distinct (map id_of
       [JObj [(''id'', JNum 1705314645123), (''data'', JStr ''first''),
              (''created_at'', JStr ''2024-01-15T10:30:45.123Z'')],
        JObj [(''id'', JNum 1705314645123), (''data'', JStr ''second''),
              (''created_at'', JStr ''2024-01-15T10:30:45.123Z'')]]) \<and>
   \<not> ids_increasing
       [JObj [(''id'', JNum 1705314645123), (''data'', JStr ''first''),
              (''created_at'', JStr ''2024-01-15T10:30:45.123Z'')],
        JObj [(''id'', JNum 1705314645123), (''data'', JStr ''second''),
              (''created_at'', JStr ''2024-01-15T10:30:45.123Z'')]] \<and>
   destructure (Some (JObj [(''data'', JPosInf)])) ''data'' = Inr (Some JPosInf) \<and>
   post_prescriptions example_fs 1705314645123 example_date (Some (JObj [(''data'', JPosInf)]))
   = (Reply 200 (JObj [(''success'', JBool True), (''id'', JNum 1705314645123)]),
      example_fs\<lparr>files := [DB_FILE \<mapsto> JsonText (JArr
       [JObj [(''id'', JNum 1705314645123), (''data'', JNull),
              (''created_at'', JStr ''2024-01-15T10:30:45.123Z'')]])]\<rparr>) \<and>
   get_prescriptions (example_fs\<lparr>files := [DB_FILE \<mapsto> JsonText (JArr
       [JObj [(''id'', JNum 1705314645123), (''data'', JNull),
              (''created_at'', JStr ''2024-01-15T10:30:45.123Z'')]])]\<rparr>)
   = Reply 200 (JArr
       [JObj [(''id'', JNum 1705314645123), (''data'', JNull),
              (''created_at'', JStr ''2024-01-15T10:30:45.123Z'')]]) \<and>
   JNull \<noteq> JPosInf"
proof -
  let ?reqs = "[(Some (JStr ''first''), 1705314645123, example_date),
                (Some (JStr ''second''), 1705314645123, example_date)]"
  have 3: "map stored ?reqs =
       [JObj [(''id'', JNum 1705314645123), (''data'', JStr ''first''),
              (''created_at'', JStr ''2024-01-15T10:30:45.123Z'')],
        JObj [(''id'', JNum 1705314645123), (''data'', JStr ''second''),
              (''created_at'', JStr ''2024-01-15T10:30:45.123Z'')]]"
    by (simp add: stored_def record_json_def example_iso)
  have "append_all example_fs ?reqs =
     Inr (example_fs\<lparr>files := (files example_fs)(DB_FILE \<mapsto> JsonText (JArr ([] @ map stored ?reqs)))\<rparr>)"
    by (rule append_all_state [OF example_fs_empty]) simp_all
  then have 4: "append_all example_fs ?reqs =
     Inr (example_fs\<lparr>files := [DB_FILE \<mapsto> JsonText (JArr (map stored ?reqs))]\<rparr>)"
    by (simp add: example_fs_def)
  have 5: "destructure (Some (JObj [(''data'', JPosInf)])) ''data'' = Inr (Some JPosInf)"
    by simp
  have 6: "post_prescriptions example_fs 1705314645123 example_date (Some (JObj [(''data'', JPosInf)]))
   = (Reply 200 (JObj [(''success'', JBool True), (''id'', JNum 1705314645123)]),
      example_fs\<lparr>files := [DB_FILE \<mapsto> JsonText (JArr
       [JObj [(''id'', JNum 1705314645123), (''data'', JNull),
              (''created_at'', JStr ''2024-01-15T10:30:45.123Z'')]])]\<rparr>)"
    by (simp add: post_prescriptions_def savePrescription_array [OF example_fs_empty]
          JSON_stringify_def record_json_def example_iso)
       (simp add: example_fs_def)
  have 7: "get_prescriptions (example_fs\<lparr>files := [DB_FILE \<mapsto> JsonText (JArr
       [JObj [(''id'', JNum 1705314645123), (''data'', JNull),
              (''created_at'', JStr ''2024-01-15T10:30:45.123Z'')]])]\<rparr>)
   = Reply 200 (JArr
       [JObj [(''id'', JNum 1705314645123), (''data'', JNull),
              (''created_at'', JStr ''2024-01-15T10:30:45.123Z'')]])"
    by (simp add: get_prescriptions_def getPrescriptions_def readFileSync_def path_error_DB_FILE
          is_dir_DB_FILE)
       (simp add: example_fs_def DB_FILE_def)
  have 8: "\<not> distinct (map id_of
       [JObj [(''id'', JNum 1705314645123), (''data'', JStr ''first''),
              (''created_at'', JStr ''2024-01-15T10:30:45.123Z'')],
        JObj [(''id'', JNum 1705314645123), (''data'', JStr ''second''),
              (''created_at'', JStr ''2024-01-15T10:30:45.123Z'')]])"
    by (simp add: id_of_def)
  have 9: "\<not> ids_increasing
       [JObj [(''id'', JNum 1705314645123), (''data'', JStr ''first''),
              (''created_at'', JStr ''2024-01-15T10:30:45.123Z'')],
        JObj [(''id'', JNum 1705314645123), (''data'', JStr ''second''),
              (''created_at'', JStr ''2024-01-15T10:30:45.123Z'')]]"
    by (simp add: id_of_def ids_increasing_def)
  have 10: "JNull \<noteq> JPosInf"
    by simp
  show ?thesis
    using 4 5 6 7 8 9 10 unfolding 3 by (intro conjI)
qed

text \<open>
  C10. A request to \<^verbatim>\<open>POST /api/prescriptions\<close> whose body has no \<^verbatim>\<open>data\<close>, on a
  store that holds an array, is answered with success and the generated id, and the
  record added to the store file has \<^verbatim>\<open>id\<close> and \<^verbatim>\<open>created_at\<close> and no
  \<^verbatim>\<open>data\<close> key.
\<close>

theorem missing_data_is_stored:
  assumes "destructure body ''data'' = Inr None"
    and "getPrescriptions fs = Inr (JArr xs)"
  shows "post_prescriptions fs now_ms now body =
           (Reply 200 (JObj [(''success'', JBool True), (''id'', JNum (of_int now_ms))]),
            fs\<lparr>files := (files fs)(DB_FILE \<mapsto> JSON_stringify (JArr (xs @
               [JObj [(''id'', JNum (of_int now_ms)),
                      (''created_at'', JStr (toISOString now))]])))\<rparr>)"
  by (simp add: post_prescriptions_def assms(1) savePrescription_array [OF assms(2)]
        record_json_def)

theorem missing_data_is_stored_witness:
  "destructure (Some (JObj [(''other'', JBool True)])) ''data'' = Inr None \<and>
   getPrescriptions example_fs = Inr (JArr []) \<and>
   post_prescriptions example_fs 1705314645123 example_date (Some (JObj [(''other'', JBool True)])) =
     (Reply 200 (JObj [(''success'', JBool True), (''id'', JNum 1705314645123)]),
      example_fs\<lparr>files := (files example_fs)(DB_FILE \<mapsto> JsonText (JArr
               [JObj [(''id'', JNum 1705314645123),
                      (''created_at'', JStr ''2024-01-15T10:30:45.123Z'')]]))\<rparr>)"
proof -
  note iso = example_iso
  have a: "destructure (Some (JObj [(''other'', JBool True)])) ''data'' = Inr None"
    by simp
  show ?thesis
    using missing_data_is_stored [OF a example_fs_empty, of 1705314645123 example_date]
    by (simp add: example_fs_empty iso JSON_stringify_def)
qed

section \<open>Saving a result\<close>

text \<open>
  C9. Once the body has been destructured, \<^verbatim>\<open>POST /api/save-result\<close> answers 400
  "No result data provided" exactly when \<open>result\<close> is falsy: absent, \<^verbatim>\<open>null\<close>,
  \<^verbatim>\<open>false\<close>, \<open>0\<close> or the empty string. The file system is left as it was.
\<close>

theorem falsy_result_rejected:
  assumes "destructure body ''result'' = Inr r"
  shows "(post_save_result fs now body =
            (Reply 400 (JObj [(''error'', JStr ''No result data provided'')]), fs)) =
         (r \<in> {None, Some JNull, Some (JBool False), Some (JNum 0), Some (JStr [])})"
proof (cases r)
  case None
  then show ?thesis using assms by (simp add: post_save_result_def)
next
  case (Some v)
  show ?thesis
  proof (cases "truthy v")
    case True
    then have "Some v \<notin> {None, Some JNull, Some (JBool False), Some (JNum 0), Some (JStr [])}"
      by (cases v) auto
    moreover have "post_save_result fs now body \<noteq>
            (Reply 400 (JObj [(''error'', JStr ''No result data provided'')]), fs)"
      using assms Some True
      by (auto simp: post_save_result_def split: sum.splits prod.splits)
    ultimately show ?thesis using Some by simp
  next
    case False
    then have "Some v \<in> {None, Some JNull, Some (JBool False), Some (JNum 0), Some (JStr [])}"
      by (cases v) auto
    then show ?thesis using assms Some False by (simp add: post_save_result_def)
  qed
qed

theorem falsy_result_rejected_witness:
  "destructure (Some (JObj [(''result'', JStr [])])) ''result'' = Inr (Some (JStr [])) \<and>
   post_save_result example_fs example_date (Some (JObj [(''result'', JStr [])]))
     = (Reply 400 (JObj [(''error'', JStr ''No result data provided'')]), example_fs) \<and>
   destructure (Some (JObj [(''result'', JNum 0)])) ''result'' = Inr (Some (JNum 0)) \<and>
   post_save_result example_fs example_date (Some (JObj [(''result'', JNum 0)]))
     = (Reply 400 (JObj [(''error'', JStr ''No result data provided'')]), example_fs)"
proof -
  have a: "destructure (Some (JObj [(''result'', JStr [])])) ''result'' = Inr (Some (JStr []))"
    by simp
  have b: "destructure (Some (JObj [(''result'', JNum 0)])) ''result'' = Inr (Some (JNum 0))"
    by simp
  show ?thesis
    using falsy_result_rejected [OF a, of example_fs example_date]
      falsy_result_rejected [OF b, of example_fs example_date]
    by simp
qed

lemma replace_space_runs_Nil: "(replace_space_runs s = []) = (s = [])"
  by (cases s) simp_all

lemma doctorName_string:
  "doctor_name_of result = Some (JStr s) \<Longrightarrow>
   doctorName result = Inr (if s = [] then ''unknown'' else replace_space_runs s)"
  by (simp add: doctorName_def Let_def replace_space_runs_Nil)

lemma doctorName_absent:
  "doctor_name_of result = None \<or> doctor_name_of result = Some JNull \<Longrightarrow>
   doctorName result = Inr ''unknown''"
  by (auto simp: doctorName_def)

lemma doctorName_not_string:
  "doctor_name_of result = Some v \<Longrightarrow> v \<noteq> JNull \<Longrightarrow> \<forall>s. v \<noteq> JStr s \<Longrightarrow>
   result_filename now result = Inl TypeError"
  by (cases v) (simp_all add: result_filename_def doctorName_def)

lemma dropWhile_run:
  "list_all P ws \<Longrightarrow> rest = [] \<or> \<not> P (hd rest) \<Longrightarrow> dropWhile P (ws @ rest) = rest"
proof (induction ws)
  case Nil
  then show ?case by (cases rest) auto
next
  case (Cons w ws)
  then show ?case by simp
qed

lemma replace_space_run:
  assumes "ws \<noteq> []" "list_all is_space ws" "rest = [] \<or> \<not> is_space (hd rest)"
  shows "replace_space_runs (ws @ rest) = CHR ''_'' # replace_space_runs rest"
proof -
  obtain w ws' where ws: "ws = w # ws'" using assms(1) by (cases ws) auto
  then have "is_space w" "list_all is_space ws'" using assms(2) by simp_all
  then show ?thesis
    using dropWhile_run [of is_space ws' rest] assms(3) by (simp add: ws)
qed

lemma save_result_file_Inr:
  assumes "save_result_file fs now result = Inr (fn, fp, fs')"
  shows "result_filename now result = Inr fn \<and> fp = path_join [''results'', fn] \<and>
         files fs' fp = Some (JSON_stringify result)"
  using assms
  by (auto simp: save_result_file_def writeFileSync_def Let_def
           split: sum.splits if_splits option.splits)

lemma doctor_name_of_example: "doctor_name_of (result_of_doctor name) = Some (JStr name)"
  by (simp add: doctor_name_of_def result_of_doctor_def)

lemma truthy_example: "truthy (result_of_doctor name)"
  by (simp add: result_of_doctor_def)

lemma jane: "replace_space_runs ''Dr. Jane Smith'' = ''Dr._Jane_Smith''"
  by (simp add: is_space_def)

lemma evil: "replace_space_runs ''x/../../evil'' = ''x/../../evil''"
  by (simp add: is_space_def)

lemma jane_path:
  "path_join [''results'', ''prescription_Dr._Jane_Smith_2024-01-15T10-30-45.json'']
     = ''results/prescription_Dr._Jane_Smith_2024-01-15T10-30-45.json''"
  by (simp add: path_join_def normalize_def normalizeString_def is_absolute_def)

lemma evil_path:
  "path_join [''results'', ''prescription_x/../../evil_2024-01-15T10-30-45.json'']
     = ''evil_2024-01-15T10-30-45.json''"
  by (simp add: path_join_def normalize_def normalizeString_def is_absolute_def)

text \<open>
  C4, as amended. When \<^verbatim>\<open>metadata.doctor_name\<close> is absent, \<^verbatim>\<open>null\<close> or a string, the
  archive file name is \<^verbatim>\<open>prescription_\<close>, the doctor, an underscore, the time stamp
  and \<^verbatim>\<open>.json\<close>. The doctor is the name with every white space run replaced by
  one underscore (a run followed by a character that is not white space, or by the end,
  becomes a single underscore, and any other character is kept), or \<^verbatim>\<open>unknown\<close>
  when the name is absent or empty. The time stamp is the date and the time of day to
  the second, with hyphens for the colons: the milliseconds and the \<^verbatim>\<open>Z\<close> are cut
  off. A save that succeeds leaves the serialized result in the file of that name under
  \<^verbatim>\<open>results\<close>, whatever the file held before.
\<close>

theorem archive_filename_format:
  assumes "doctor_name_of result = None \<or> doctor_name_of result = Some JNull \<or>
           doctor_name_of result = Some (JStr s)"
  shows "result_filename now result =
           Inr (''prescription_'' @
                (if doctor_name_of result = Some (JStr s) \<and> s \<noteq> [] then replace_space_runs s
                 else ''unknown'') @
                ''_'' @
                (year_string (year now) @ ''-'' @ pad 2 (month now) @ ''-'' @ pad 2 (day now) @
                 ''T'' @ pad 2 (hours now) @ ''-'' @ pad 2 (minutes now) @ ''-'' @
                 pad 2 (seconds now)) @
                ''.json'') \<and>
         (\<forall>ws rest. ws \<noteq> [] \<and> list_all is_space ws \<and> (rest = [] \<or> \<not> is_space (hd rest)) \<longrightarrow>
            replace_space_runs (ws @ rest) = CHR ''_'' # replace_space_runs rest) \<and>
         (\<forall>c rest. \<not> is_space c \<longrightarrow>
            replace_space_runs (c # rest) = c # replace_space_runs rest) \<and>
         (\<forall>fs fn fp fs'. save_result_file fs now result = Inr (fn, fp, fs') \<longrightarrow>
            result_filename now result = Inr fn \<and> fp = path_join [''results'', fn] \<and>
            files fs' fp = Some (JSON_stringify result))"
proof -
  have name: "doctorName result =
      Inr (if doctor_name_of result = Some (JStr s) \<and> s \<noteq> [] then replace_space_runs s
           else ''unknown'')"
  proof (cases "doctor_name_of result = Some (JStr s)")
    case True
    then show ?thesis by (simp add: doctorName_string)
  next
    case False
    then show ?thesis using assms doctorName_absent [of result] by simp
  qed
  have 1: "result_filename now result =
           Inr (''prescription_'' @
                (if doctor_name_of result = Some (JStr s) \<and> s \<noteq> [] then replace_space_runs s
                 else ''unknown'') @
                ''_'' @
                (year_string (year now) @ ''-'' @ pad 2 (month now) @ ''-'' @ pad 2 (day now) @
                 ''T'' @ pad 2 (hours now) @ ''-'' @ pad 2 (minutes now) @ ''-'' @
                 pad 2 (seconds now)) @
                ''.json'')"
    unfolding result_filename_def name archive_filename_def timestamp_format by simp
  have 2: "\<forall>ws rest. ws \<noteq> [] \<and> list_all is_space ws \<and> (rest = [] \<or> \<not> is_space (hd rest)) \<longrightarrow>
            replace_space_runs (ws @ rest) = CHR ''_'' # replace_space_runs rest"
    using replace_space_run by blast
  have 3: "\<forall>c rest. \<not> is_space c \<longrightarrow> replace_space_runs (c # rest) = c # replace_space_runs rest"
    by simp
  have 4: "\<forall>fs fn fp fs'. save_result_file fs now result = Inr (fn, fp, fs') \<longrightarrow>
            result_filename now result = Inr fn \<and> fp = path_join [''results'', fn] \<and>
            files fs' fp = Some (JSON_stringify result)"
    using save_result_file_Inr by blast
  show ?thesis
    using 1 2 3 4 by (intro conjI)
qed

lemma example_paths_ok:
  "path_error ''results/prescription_Dr._Jane_Smith_2024-01-15T10-30-45.json'' = None"
  "path_error ''evil_2024-01-15T10-30-45.json'' = None"
  by (simp_all add: path_error_def utf8_length_def NAME_MAX_def PATH_MAX_def)

lemma save_example:
  "save_result_file fs example_date (result_of_doctor ''Dr. Jane Smith'') =
     (if is_dir fs ''results/prescription_Dr._Jane_Smith_2024-01-15T10-30-45.json'' then Inl EISDIR
      else if is_dir fs ''results''
      then Inr (''prescription_Dr._Jane_Smith_2024-01-15T10-30-45.json'',
                ''results/prescription_Dr._Jane_Smith_2024-01-15T10-30-45.json'',
                fs\<lparr>files := (files fs)(''results/prescription_Dr._Jane_Smith_2024-01-15T10-30-45.json''
                     \<mapsto> JSON_stringify (result_of_doctor ''Dr. Jane Smith''))\<rparr>)
      else Inl ENOENT)"
proof -
  have fn: "result_filename example_date (result_of_doctor ''Dr. Jane Smith'') =
     Inr ''prescription_Dr._Jane_Smith_2024-01-15T10-30-45.json''"
    unfolding result_filename_def doctorName_string [OF doctor_name_of_example] jane
      example_timestamp archive_filename_def
    by simp
  have pd: "parent_dir ''results/prescription_Dr._Jane_Smith_2024-01-15T10-30-45.json'' = ''results''"
    by (simp add: parent_dir_def)
  show ?thesis
    unfolding save_result_file_def fn
    by (simp add: jane_path writeFileSync_def pd example_paths_ok Let_def)
qed


lemma example_dirs:
  "is_dir example_fs ''results''"
  "\<not> is_dir example_fs ''results/prescription_Dr._Jane_Smith_2024-01-15T10-30-45.json''"
  "\<not> is_dir example_fs ''evil_2024-01-15T10-30-45.json''"
  by (simp_all add: is_dir_def only_parents_def example_fs_def)

theorem archive_filename_format_witness:
  "doctor_name_of (result_of_doctor ''Dr. Jane Smith'') = Some (JStr ''Dr. Jane Smith'') \<and>
   result_filename example_date (result_of_doctor ''Dr. Jane Smith'')
     = Inr ''prescription_Dr._Jane_Smith_2024-01-15T10-30-45.json'' \<and>
   save_result_file
     (example_fs\<lparr>files := (files example_fs)
        (''results/prescription_Dr._Jane_Smith_2024-01-15T10-30-45.json'' \<mapsto> PlainText ''earlier'')\<rparr>)
     example_date (result_of_doctor ''Dr. Jane Smith'')
     = Inr (''prescription_Dr._Jane_Smith_2024-01-15T10-30-45.json'',
            ''results/prescription_Dr._Jane_Smith_2024-01-15T10-30-45.json'',
            example_fs\<lparr>files := (files example_fs)
              (''results/prescription_Dr._Jane_Smith_2024-01-15T10-30-45.json''
                 \<mapsto> JSON_stringify (result_of_doctor ''Dr. Jane Smith''))\<rparr>)"
proof -
  have a: "doctor_name_of (result_of_doctor ''Dr. Jane Smith'') = Some (JStr ''Dr. Jane Smith'')"
    by (rule doctor_name_of_example)
  have "doctor_name_of (result_of_doctor ''Dr. Jane Smith'') = None \<or>
        doctor_name_of (result_of_doctor ''Dr. Jane Smith'') = Some JNull \<or>
        doctor_name_of (result_of_doctor ''Dr. Jane Smith'') = Some (JStr ''Dr. Jane Smith'')"
    using a by simp
  from archive_filename_format [OF this, of example_date, THEN conjunct1]
  have b: "result_filename example_date (result_of_doctor ''Dr. Jane Smith'')
     = Inr ''prescription_Dr._Jane_Smith_2024-01-15T10-30-45.json''"
    by (simp add: a is_space_def example_date_def year_string_def pad_2 pad_4 digit_def)
  have c: "save_result_file
     (example_fs\<lparr>files := (files example_fs)
        (''results/prescription_Dr._Jane_Smith_2024-01-15T10-30-45.json'' \<mapsto> PlainText ''earlier'')\<rparr>)
     example_date (result_of_doctor ''Dr. Jane Smith'')
     = Inr (''prescription_Dr._Jane_Smith_2024-01-15T10-30-45.json'',
            ''results/prescription_Dr._Jane_Smith_2024-01-15T10-30-45.json'',
            example_fs\<lparr>files := (files example_fs)
              (''results/prescription_Dr._Jane_Smith_2024-01-15T10-30-45.json''
                 \<mapsto> JSON_stringify (result_of_doctor ''Dr. Jane Smith''))\<rparr>)"
    unfolding save_example using example_dirs(1,2)
    by (simp add: is_dir_def JSON_stringify_def)
  show ?thesis
    using a b c by (intro conjI)
qed

text \<open>
  The claim as stated (a file name for every result payload) fails for a doctor name
  that is not a string: a number has no \<^verbatim>\<open>replace\<close> method, line 79 raises a
  TypeError, and the request is answered 500 with no file name and no file written.
\<close>

theorem numeric_doctor_name_fails:
  "doctor_name_of (JObj [(''metadata'', JObj [(''doctor_name'', JNum 123)])]) = Some (JNum 123) \<and>
   result_filename example_date (JObj [(''metadata'', JObj [(''doctor_name'', JNum 123)])])
     = Inl TypeError \<and>
   post_save_result example_fs example_date
     (Some (JObj [(''result'', JObj [(''metadata'', JObj [(''doctor_name'', JNum 123)])])]))
     = (Reply 500 (JObj [(''error'', JStr ''Failed to save result'')]), example_fs)"
  by (simp add: doctor_name_of_def result_filename_def doctorName_def post_save_result_def
        save_result_file_def)

text \<open>
  C2. The claim: no save creates a file outside the results directory, whatever the
  doctor name. The save path joins the file name to \<^verbatim>\<open>results\<close> without reducing
  it to a base name, as the read path does: with the doctor name \<^verbatim>\<open>x/../../evil\<close>
  the joined path is \<^verbatim>\<open>evil_2024-01-15T10-30-45.json\<close> in the working directory,
  the write succeeds, and the new file is not under the resolved results directory.
\<close>

theorem save_writes_outside_results:
  "post_save_result example_fs example_date
     (Some (JObj [(''result'', result_of_doctor ''x/../../evil'')]))
   = (Reply 200 (JObj [(''success'', JBool True),
                       (''filename'', JStr ''prescription_x/../../evil_2024-01-15T10-30-45.json''),
                       (''filepath'', JStr ''evil_2024-01-15T10-30-45.json''),
                       (''message'',
                          JStr ''Result saved to prescription_x/../../evil_2024-01-15T10-30-45.json'')]),
      example_fs\<lparr>files := (files example_fs)(''evil_2024-01-15T10-30-45.json''
         \<mapsto> JSON_stringify (result_of_doctor ''x/../../evil''))\<rparr>) \<and>
   files example_fs ''evil_2024-01-15T10-30-45.json'' = None \<and>
   path_resolve ''/app'' [''evil_2024-01-15T10-30-45.json''] = ''/app/evil_2024-01-15T10-30-45.json'' \<and>
   path_resolve ''/app'' [''results''] = ''/app/results'' \<and>
   \<not> in_results_dir ''/app'' ''evil_2024-01-15T10-30-45.json''"
proof -
  have fn: "result_filename example_date (result_of_doctor ''x/../../evil'') =
     Inr ''prescription_x/../../evil_2024-01-15T10-30-45.json''"
    unfolding result_filename_def doctorName_string [OF doctor_name_of_example] evil
      example_timestamp archive_filename_def
    by simp
  have pd: "parent_dir ''evil_2024-01-15T10-30-45.json'' = ''.''"
    by (simp add: parent_dir_def)
  have sv: "save_result_file example_fs example_date (result_of_doctor ''x/../../evil'') =
     Inr (''prescription_x/../../evil_2024-01-15T10-30-45.json'', ''evil_2024-01-15T10-30-45.json'',
          example_fs\<lparr>files := (files example_fs)(''evil_2024-01-15T10-30-45.json''
             \<mapsto> JSON_stringify (result_of_doctor ''x/../../evil''))\<rparr>)"
    unfolding save_result_file_def fn
    by (simp add: evil_path writeFileSync_def pd example_dirs example_paths_ok is_dir_cwd Let_def)
  have 1: "post_save_result example_fs example_date
     (Some (JObj [(''result'', result_of_doctor ''x/../../evil'')]))
   = (Reply 200 (JObj [(''success'', JBool True),
                       (''filename'', JStr ''prescription_x/../../evil_2024-01-15T10-30-45.json''),
                       (''filepath'', JStr ''evil_2024-01-15T10-30-45.json''),
                       (''message'',
                          JStr ''Result saved to prescription_x/../../evil_2024-01-15T10-30-45.json'')]),
      example_fs\<lparr>files := (files example_fs)(''evil_2024-01-15T10-30-45.json''
         \<mapsto> JSON_stringify (result_of_doctor ''x/../../evil''))\<rparr>)"
    by (simp add: post_save_result_def truthy_example sv)
  have 2: "files example_fs ''evil_2024-01-15T10-30-45.json'' = None"
    by (simp add: example_fs_def DB_FILE_def)
  have 3: "path_resolve ''/app'' [''evil_2024-01-15T10-30-45.json''] = ''/app/evil_2024-01-15T10-30-45.json''"
    by (simp add: path_resolve_def normalizeString_def is_absolute_def)
  have 4: "path_resolve ''/app'' [''results''] = ''/app/results''"
    by (simp add: path_resolve_def normalizeString_def is_absolute_def)
  have 5: "\<not> in_results_dir ''/app'' ''evil_2024-01-15T10-30-45.json''"
    unfolding in_results_dir_def 3 4 by (simp add: startsWith_def)
  show ?thesis
    using 1 2 3 4 5 by (intro conjI)
qed

text \<open>
  C6. The claim: a result written by the save operation and read back through the read
  operation gives the bytes that were written. The save succeeds and the file holds the
  serialized result, but the read endpoint answers 403 for the file name the save
  returned, as it does for every name.
\<close>

theorem saved_file_cannot_be_read_back:
  "post_save_result example_fs example_date
     (Some (JObj [(''result'', result_of_doctor ''Dr. Jane Smith'')]))
   = (Reply 200 (JObj [(''success'', JBool True),
                       (''filename'', JStr ''prescription_Dr._Jane_Smith_2024-01-15T10-30-45.json''),
                       (''filepath'',
                          JStr ''results/prescription_Dr._Jane_Smith_2024-01-15T10-30-45.json''),
                       (''message'',
                          JStr ''Result saved to prescription_Dr._Jane_Smith_2024-01-15T10-30-45.json'')]),
      example_fs\<lparr>files := (files example_fs)
        (''results/prescription_Dr._Jane_Smith_2024-01-15T10-30-45.json''
           \<mapsto> JSON_stringify (result_of_doctor ''Dr. Jane Smith''))\<rparr>) \<and>
   get_result_file ''/app''
     (example_fs\<lparr>files := (files example_fs)
        (''results/prescription_Dr._Jane_Smith_2024-01-15T10-30-45.json''
           \<mapsto> JSON_stringify (result_of_doctor ''Dr. Jane Smith''))\<rparr>)
     ''prescription_Dr._Jane_Smith_2024-01-15T10-30-45.json''
   = Reply 403 (JObj [(''error'', JStr ''Access denied'')])"
proof -
  have sv: "save_result_file example_fs example_date (result_of_doctor ''Dr. Jane Smith'') =
     Inr (''prescription_Dr._Jane_Smith_2024-01-15T10-30-45.json'',
          ''results/prescription_Dr._Jane_Smith_2024-01-15T10-30-45.json'',
          example_fs\<lparr>files := (files example_fs)
            (''results/prescription_Dr._Jane_Smith_2024-01-15T10-30-45.json''
               \<mapsto> JSON_stringify (result_of_doctor ''Dr. Jane Smith''))\<rparr>)"
    unfolding save_example using example_dirs(1,2) by (simp add: JSON_stringify_def)
  have 1: "post_save_result example_fs example_date
     (Some (JObj [(''result'', result_of_doctor ''Dr. Jane Smith'')]))
   = (Reply 200 (JObj [(''success'', JBool True),
                       (''filename'', JStr ''prescription_Dr._Jane_Smith_2024-01-15T10-30-45.json''),
                       (''filepath'',
                          JStr ''results/prescription_Dr._Jane_Smith_2024-01-15T10-30-45.json''),
                       (''message'',
                          JStr ''Result saved to prescription_Dr._Jane_Smith_2024-01-15T10-30-45.json'')]),
      example_fs\<lparr>files := (files example_fs)
        (''results/prescription_Dr._Jane_Smith_2024-01-15T10-30-45.json''
           \<mapsto> JSON_stringify (result_of_doctor ''Dr. Jane Smith''))\<rparr>)"
    by (simp add: post_save_result_def truthy_example sv)
  have abs: "is_absolute ''/app''"
    by (simp add: is_absolute_def)
  have 2: "get_result_file ''/app'' fs f = Reply 403 (JObj [(''error'', JStr ''Access denied'')])"
    for fs f
    unfolding get_result_file_def Let_def
    using results_path_never_confined [OF abs] by simp
  show ?thesis
    using 1 2 by (intro conjI)
qed

section \<open>Extraction Client\<close>

lemma split_on_absent: "c \<notin> set s \<Longrightarrow> split_on c s = [s]"
  by (induction s) auto

lemma split_on_hd: "\<exists>ss. split_on c s = takeWhile (\<lambda>x. x \<noteq> c) s # ss"
  by (induction s) (auto split: list.splits)

lemma split_on_first:
  "c \<notin> set pre \<Longrightarrow> split_on c (pre @ c # rest) = pre # split_on c rest"
  by (induction pre) auto

lemma image_data_no_comma: "CHR '','' \<notin> set b \<Longrightarrow> image_data b = b"
  by (simp add: image_data_def split_on_absent element_def)

lemma image_data_comma:
  assumes "CHR '','' \<notin> set pre"
  shows "image_data (pre @ CHR '','' # rest) =
           (if takeWhile (\<lambda>c. c \<noteq> CHR '','') rest = [] then pre @ CHR '','' # rest
            else takeWhile (\<lambda>c. c \<noteq> CHR '','') rest)"
proof -
  obtain ss where "split_on CHR '','' rest = takeWhile (\<lambda>c. c \<noteq> CHR '','') rest # ss"
    using split_on_hd by blast
  then show ?thesis
    by (simp add: image_data_def split_on_first [OF assms] element_def)
qed

text \<open>
  C7, as amended. A payload without a comma is transmitted unchanged. For a payload
  with a comma, what is transmitted is the text between the first comma and the next
  one (or the end of the payload) when that text is not empty, and the whole payload
  when it is empty. So a data URL whose data part is not empty and has no comma is
  transmitted with its prefix stripped. The value is the \<^verbatim>\<open>data\<close> of the one
  request sent.
\<close>

theorem image_data_transmitted:
  "(CHR '','' \<notin> set b \<longrightarrow> image_data b = b) \<and>
   (\<forall>pre rest. b = pre @ CHR '','' # rest \<and> CHR '','' \<notin> set pre \<longrightarrow>
      image_data b =
        (if takeWhile (\<lambda>c. c \<noteq> CHR '','') rest = [] then b
         else takeWhile (\<lambda>c. c \<noteq> CHR '','') rest)) \<and>
   (\<forall>pre rest. b = pre @ CHR '','' # rest \<and> CHR '','' \<notin> set pre \<and>
      CHR '','' \<notin> set rest \<and> rest \<noteq> [] \<longrightarrow>
      image_data b = rest \<and> rest = after_first_comma b) \<and>
   data (inlineData (extraction_request b mime)) = image_data b \<and>
   snd (processPrescriptionImage provider b mime) = [extraction_request b mime]"
proof -
  have 1: "CHR '','' \<notin> set b \<longrightarrow> image_data b = b"
    by (simp add: image_data_no_comma)
  have 2: "\<forall>pre rest. b = pre @ CHR '','' # rest \<and> CHR '','' \<notin> set pre \<longrightarrow>
      image_data b =
        (if takeWhile (\<lambda>c. c \<noteq> CHR '','') rest = [] then b
         else takeWhile (\<lambda>c. c \<noteq> CHR '','') rest)"
    using image_data_comma by blast
  have 3: "\<forall>pre rest. b = pre @ CHR '','' # rest \<and> CHR '','' \<notin> set pre \<and>
      CHR '','' \<notin> set rest \<and> rest \<noteq> [] \<longrightarrow>
      image_data b = rest \<and> rest = after_first_comma b"
  proof (intro allI impI)
    fix pre rest
    assume h: "b = pre @ CHR '','' # rest \<and> CHR '','' \<notin> set pre \<and>
      CHR '','' \<notin> set rest \<and> rest \<noteq> []"
    then have tw: "takeWhile (\<lambda>c. c \<noteq> CHR '','') rest = rest"
      by (auto simp: takeWhile_eq_all_conv)
    have "dropWhile (\<lambda>c. c \<noteq> CHR '','') (pre @ CHR '','' # rest) = CHR '','' # rest"
      using h by (auto simp: dropWhile_append3)
    then show "image_data b = rest \<and> rest = after_first_comma b"
      using h image_data_comma [of pre rest] tw by (simp add: after_first_comma_def)
  qed
  have 4: "data (inlineData (extraction_request b mime)) = image_data b"
    by (simp add: extraction_request_def)
  have 5: "snd (processPrescriptionImage provider b mime) = [extraction_request b mime]"
    by (simp add: processPrescriptionImage_def Let_def)
  show ?thesis using 1 2 3 4 5 by blast
qed

theorem image_data_transmitted_witness:
  "CHR '','' \<notin> set ''iVBORw0KGgo='' \<and> image_data ''iVBORw0KGgo='' = ''iVBORw0KGgo='' \<and>
   CHR '','' \<notin> set ''data:image/png;base64'' \<and>
   image_data (''data:image/png;base64'' @ CHR '','' # ''iVBORw0KGgo='') = ''iVBORw0KGgo=''"
proof -
  have a: "CHR '','' \<notin> set ''iVBORw0KGgo=''" by simp
  have b: "CHR '','' \<notin> set ''data:image/png;base64''" by simp
  have c: "''iVBORw0KGgo='' \<noteq> []" by simp
  from image_data_transmitted [of "''iVBORw0KGgo=''"] a
  have 1: "image_data ''iVBORw0KGgo='' = ''iVBORw0KGgo=''" by blast
  from image_data_transmitted [of "''data:image/png;base64'' @ CHR '','' # ''iVBORw0KGgo=''"] a b c
  have 2: "image_data (''data:image/png;base64'' @ CHR '','' # ''iVBORw0KGgo='') = ''iVBORw0KGgo=''"
    by blast
  show ?thesis using a b 1 2 by blast
qed

text \<open>
  The claim as stated (a payload with a comma is transmitted with all up to the first
  comma stripped) fails when the data part has a comma in it and when it is empty.
\<close>

theorem image_data_not_stripped:
  "CHR '','' \<in> set ''data:image/png;base64,AA,BB'' \<and>
   image_data ''data:image/png;base64,AA,BB'' = ''AA'' \<and>
   after_first_comma ''data:image/png;base64,AA,BB'' = ''AA,BB'' \<and>
   CHR '','' \<in> set ''data:image/png;base64,'' \<and>
   image_data ''data:image/png;base64,'' = ''data:image/png;base64,'' \<and>
   after_first_comma ''data:image/png;base64,'' = []"
  by (simp add: image_data_def element_def after_first_comma_def)

text \<open>
  C5. One request is sent to the provider. When the response text is a JSON document
  the result is the parsed value as it is; when the response has no text or an empty
  one the call fails with the error "No response from AI"; when the text is not empty
  and is not JSON the call fails with the parser's SyntaxError. In each case the
  request is sent once.
\<close>

theorem extract_outcomes:
  "(provider (extraction_request img mime) = Response (Some (JsonText v)) \<longrightarrow>
      processPrescriptionImage provider img mime = (Inr v, [extraction_request img mime])) \<and>
   (provider (extraction_request img mime) = Response None \<or>
    provider (extraction_request img mime) = Response (Some (PlainText [])) \<longrightarrow>
      processPrescriptionImage provider img mime =
        (Inl (Error ''No response from AI''), [extraction_request img mime])) \<and>
   (provider (extraction_request img mime) = Response (Some (PlainText s)) \<and> s \<noteq> [] \<longrightarrow>
      processPrescriptionImage provider img mime = (Inl SyntaxError, [extraction_request img mime]))"
  by (auto simp: processPrescriptionImage_def Let_def)

theorem extract_outcomes_witness:
  "processPrescriptionImage (\<lambda>r. Response (Some (JsonText (result_of_doctor ''Dr. Jane Smith''))))
      ''data:image/png;base64,iVBORw0KGgo='' ''image/png''
     = (Inr (result_of_doctor ''Dr. Jane Smith''),
        [extraction_request ''data:image/png;base64,iVBORw0KGgo='' ''image/png'']) \<and>
   processPrescriptionImage (\<lambda>r. Response None) ''data:image/png;base64,iVBORw0KGgo='' ''image/png''
     = (Inl (Error ''No response from AI''),
        [extraction_request ''data:image/png;base64,iVBORw0KGgo='' ''image/png'']) \<and>
   processPrescriptionImage (\<lambda>r. Response (Some (PlainText [])))
      ''data:image/png;base64,iVBORw0KGgo='' ''image/png''
     = (Inl (Error ''No response from AI''),
        [extraction_request ''data:image/png;base64,iVBORw0KGgo='' ''image/png'']) \<and>
   processPrescriptionImage (\<lambda>r. Response (Some (PlainText ''I cannot read this image'')))
      ''data:image/png;base64,iVBORw0KGgo='' ''image/png''
     = (Inl SyntaxError,
        [extraction_request ''data:image/png;base64,iVBORw0KGgo='' ''image/png''])"
  using
    extract_outcomes [of "\<lambda>r. Response (Some (JsonText (result_of_doctor ''Dr. Jane Smith'')))"
      "''data:image/png;base64,iVBORw0KGgo=''" "''image/png''" "result_of_doctor ''Dr. Jane Smith''" "[]"]
    extract_outcomes [of "\<lambda>r. Response None"
      "''data:image/png;base64,iVBORw0KGgo=''" "''image/png''" "JNull" "[]"]
    extract_outcomes [of "\<lambda>r. Response (Some (PlainText []))"
      "''data:image/png;base64,iVBORw0KGgo=''" "''image/png''" "JNull" "[]"]
    extract_outcomes [of "\<lambda>r. Response (Some (PlainText ''I cannot read this image''))"
      "''data:image/png;base64,iVBORw0KGgo=''" "''image/png''" "JNull" "''I cannot read this image''"]
  by simp

end
